theory Spec2Isabelle
  imports Complex_Main "HOL-Library.List_Lexorder" "HOL-Library.Char_ord"
begin

section \<open>Text helpers of the Python runtime\<close>

text \<open>
  Strings are lists of bytes, the UTF-8 form of the program's texts; blanks, letters and
  digits are the ASCII ones. The volume and concentration columns are Python floats and SQL
  REAL columns; a stored volume is modelled by a \<^typ>\<open>real\<close>, the number the float is.
  Comparisons are the same on both, and \<open>x * 0.25\<close> is the exact quarter as it is for a
  binary float. A float difference is the float nearest to the exact difference: where the
  program subtracts, the model takes the subtraction of floats as a parameter \<open>fsub\<close>.
  Not-a-number is a value of the program where \<open>float\<close> can return it, the amount of a usage
  request; the database stores it as NULL. The infinities are outside the model.
\<close>

text \<open>\<open>str.isspace\<close> on one ASCII character: tab to carriage return, the four
  separators 28 to 31, and the blank.\<close>

definition is_space :: "char \<Rightarrow> bool" where
  "is_space c = (let n = (of_char c :: nat) in (9 \<le> n \<and> n \<le> 13) \<or> (28 \<le> n \<and> n \<le> 32))"

definition lstrip :: "string \<Rightarrow> string" where
  "lstrip s = dropWhile is_space s"

definition rstrip :: "string \<Rightarrow> string" where
  "rstrip s = rev (dropWhile is_space (rev s))"

text \<open>\<open>s.strip()\<close>\<close>

definition strip :: "string \<Rightarrow> string" where
  "strip s = rstrip (lstrip s)"

text \<open>\<open>s.upper()\<close> on ASCII text: the letters a to z move to A to Z.\<close>

definition upper_char :: "char \<Rightarrow> char" where
  "upper_char c = (let n = (of_char c :: nat) in if 97 \<le> n \<and> n \<le> 122 then char_of (n - 32) else c)"

definition upper :: "string \<Rightarrow> string" where
  "upper s = map upper_char s"

definition is_digit :: "char \<Rightarrow> bool" where
  "is_digit c = (let n = (of_char c :: nat) in 48 \<le> n \<and> n \<le> 57)"

definition digit_val :: "char \<Rightarrow> nat" where
  "digit_val c = of_char c - 48"

text \<open>
  The digits of a decimal literal after its first digit, as \<open>int(text)\<close> reads them: a digit
  extends the number, an underscore is allowed only between two digits.
\<close>

fun parse_digits :: "nat \<Rightarrow> string \<Rightarrow> nat option" where
  "parse_digits acc [] = Some acc"
| "parse_digits acc [c] = (if is_digit c then Some (10 * acc + digit_val c) else None)"
| "parse_digits acc (c # d # ds) =
     (if is_digit c then parse_digits (10 * acc + digit_val c) (d # ds)
      else if c = CHR ''_'' \<and> is_digit d then parse_digits (10 * acc + digit_val d) ds
      else None)"

definition int_body :: "string \<Rightarrow> nat option" where
  "int_body s = (case s of [] \<Rightarrow> None
                 | c # cs \<Rightarrow> if is_digit c then parse_digits (digit_val c) cs else None)"

text \<open>\<open>int(text)\<close>: surrounding blanks are dropped, one sign is allowed, \<open>None\<close> stands for
  the \<open>ValueError\<close> of the source.\<close>

definition py_int :: "string \<Rightarrow> int option" where
  "py_int s =
     (case strip s of [] \<Rightarrow> None
      | c # cs \<Rightarrow>
          if c = CHR ''-'' then map_option (\<lambda>n. - int n) (int_body cs)
          else if c = CHR ''+'' then map_option int (int_body cs)
          else map_option int (int_body (c # cs)))"

text \<open>\<open>str(n)\<close> for an integer.\<close>

fun nat_str :: "nat \<Rightarrow> string" where
  "nat_str n = (if n < 10 then [char_of (48 + n)]
                else nat_str (n div 10) @ [char_of (48 + n mod 10)])"

declare nat_str.simps [simp del]

definition py_str :: "int \<Rightarrow> string" where
  "py_str i = (if i < 0 then CHR ''-'' # nat_str (nat (- i)) else nat_str (nat i))"

section \<open>Position resolver\<close>

text \<open>\<open>parse_position_v\<close> of the import script: a letter A to I gives the row 1 to 9.\<close>

definition parse_position_v :: "string \<Rightarrow> int option" where
  "parse_position_v letter =
     (if letter = [] \<or> strip letter = [] then None
      else (case upper (strip letter) of
              [c] \<Rightarrow> (if (65::nat) \<le> of_char c \<and> of_char c \<le> (73::nat)
                       then Some (int (of_char c) - 65 + 1) else None)
            | _ \<Rightarrow> None))"

text \<open>\<open>parse_position_h\<close> of the import script: the column number.\<close>

definition parse_position_h :: "string \<Rightarrow> int option" where
  "parse_position_h v = (if v = [] \<or> strip v = [] then None else py_int (strip v))"

section \<open>Tubes\<close>

record tube =
  barcode :: "string"
  sample_id :: "int option"
  box_id :: "int option"
  position_row :: "int option"
  position_col :: "int option"
  concentration :: "real option"
  quality :: "string option"
  initial_volume :: "real option"
  current_volume :: "real option"
  source :: "string option"
  tube_type :: "string option"
  tube_notes :: "string option"

datatype py_error = ValueError

text \<open>
  \<open>Tube.get_position_display\<close>: no text when row or column is missing or zero; the row
  is a letter up to 26 and its number beyond. \<open>chr\<close> raises below code point 0.
\<close>

definition get_position_display :: "tube \<Rightarrow> py_error + string option" where
  "get_position_display t =
     (case (position_row t, position_col t) of
        (Some r, Some c) \<Rightarrow>
          if r \<noteq> 0 \<and> c \<noteq> 0 then
            (if r \<le> 26 then
               (if 64 + r < 0 then Inl ValueError
                else Inr (Some (char_of (nat (64 + r)) # py_str c)))
             else Inr (Some (py_str r @ py_str c)))
          else Inr None
      | _ \<Rightarrow> Inr None)"

text \<open>\<open>Tube.get_status\<close>\<close>

definition get_status :: "tube \<Rightarrow> string" where
  "get_status t =
     (case current_volume t of
        None \<Rightarrow> ''Empty''
      | Some cv \<Rightarrow>
          if cv \<le> 0 then ''Empty''
          else if cv < 10 then ''Critical''
          else if (case initial_volume t of None \<Rightarrow> False
                   | Some iv \<Rightarrow> iv \<noteq> 0 \<and> cv < iv * 0.25) then ''Low''
          else ''Available'')"

section \<open>The status filter of the tube query\<close>

text \<open>
  A SQL condition has three truth values; \<open>None\<close> is SQL's unknown, the value of every
  comparison with NULL. A WHERE clause keeps the rows whose condition is true.
\<close>

type_synonym sql_bool = "bool option"

definition sql_and :: "sql_bool \<Rightarrow> sql_bool \<Rightarrow> sql_bool" where
  "sql_and a b =
     (if a = Some False \<or> b = Some False then Some False
      else if a = Some True \<and> b = Some True then Some True else None)"

definition sql_or :: "sql_bool \<Rightarrow> sql_bool \<Rightarrow> sql_bool" where
  "sql_or a b =
     (if a = Some True \<or> b = Some True then Some True
      else if a = Some False \<and> b = Some False then Some False else None)"

definition sql_cmp :: "('a \<Rightarrow> 'a \<Rightarrow> bool) \<Rightarrow> 'a option \<Rightarrow> 'a option \<Rightarrow> sql_bool" where
  "sql_cmp rel a b = (case (a, b) of (Some x, Some y) \<Rightarrow> Some (rel x y) | _ \<Rightarrow> None)"

definition sql_is_null :: "'a option \<Rightarrow> sql_bool" where
  "sql_is_null a = Some (a = None)"

definition sql_is_not_null :: "'a option \<Rightarrow> sql_bool" where
  "sql_is_not_null a = Some (a \<noteq> None)"

definition sql_mul :: "real option \<Rightarrow> real option \<Rightarrow> real option" where
  "sql_mul a b = (case (a, b) of (Some x, Some y) \<Rightarrow> Some (x * y) | _ \<Rightarrow> None)"

text \<open>The condition that \<open>_build_tubes_query\<close> adds for its \<open>status\<close> argument; an empty
  or unknown status adds none.\<close>

definition status_clause :: "string \<Rightarrow> tube \<Rightarrow> sql_bool" where
  "status_clause status t =
     (let cv = current_volume t; iv = initial_volume t in
      if status = ''Empty'' then
        sql_or (sql_is_null cv) (sql_cmp (\<le>) cv (Some 0))
      else if status = ''Critical'' then
        sql_and (sql_cmp (>) cv (Some 0)) (sql_cmp (<) cv (Some 10))
      else if status = ''Low'' then
        sql_and (sql_cmp (\<ge>) cv (Some 10))
          (sql_and (sql_is_not_null iv) (sql_cmp (<) cv (sql_mul iv (Some 0.25))))
      else if status = ''Available'' then
        sql_and (sql_cmp (\<ge>) cv (Some 10))
          (sql_or (sql_is_null iv) (sql_cmp (\<ge>) cv (sql_mul iv (Some 0.25))))
      else Some True)"

text \<open>\<open>safe_int(value, default)\<close> as the query uses it, without bounds.\<close>

definition safe_int :: "string \<Rightarrow> int \<Rightarrow> int" where
  "safe_int v dflt = (case py_int v of Some n \<Rightarrow> n | None \<Rightarrow> dflt)"

text \<open>
  The WHERE condition of \<open>_build_tubes_query\<close>. The search condition looks into the sample
  and individual tables; it is taken as given (\<open>None\<close> when the search text is empty).
\<close>

definition tubes_where ::
  "(tube \<Rightarrow> sql_bool) option \<Rightarrow> string \<Rightarrow> string \<Rightarrow> string \<Rightarrow> tube \<Rightarrow> sql_bool" where
  "tubes_where search box status ttype t =
     sql_and (case search of None \<Rightarrow> Some True | Some cond \<Rightarrow> cond t)
       (sql_and (if ttype \<noteq> [] then sql_cmp (=) (tube_type t) (Some ttype) else Some True)
          (sql_and (if status \<noteq> [] then status_clause status t else Some True)
             (if box \<noteq> [] then sql_cmp (=) (box_id t) (Some (safe_int box 0)) else Some True)))"

definition selected :: "sql_bool \<Rightarrow> bool" where
  "selected c = (c = Some True)"

text \<open>
  \<open>_build_tubes_query\<close> on the tube table: the rows that the condition selects, ordered
  by barcode (bytewise, as the database compares text), all of them when a box is given
  and the first \<open>limit\<close> otherwise.
\<close>

definition build_tubes_query ::
  "(tube \<Rightarrow> sql_bool) option \<Rightarrow> string \<Rightarrow> string \<Rightarrow> string \<Rightarrow> nat \<Rightarrow>
   (int \<times> tube) list \<Rightarrow> (int \<times> tube) list" where
  "build_tubes_query search box status ttype limit table =
     (let found = sort_key (\<lambda>row. barcode (snd row))
                    (filter (\<lambda>row. selected (tubes_where search box status ttype (snd row))) table)
      in if box \<noteq> [] then found else take limit found)"

section \<open>Entity store and API operations\<close>

record individual =
  individual_id :: "string"
  aliases :: "string option"
  family_id :: "string option"
  sex :: "int option"
  phenotype :: "string option"
  projects :: "string option"
  other_family_codes :: "string option"
  individual_notes :: "string option"

text \<open>A calendar date: year, month, day.\<close>

datatype date = Date nat nat nat

record sample =
  s_sample_id :: "string"
  s_individual_id :: "int option"
  s_sample_type :: "string option"
  s_arrival_date :: "date option"
  s_notes :: "string option"

record box =
  box_name :: "string option"
  box_type :: "string option"
  freezer :: "string option"
  box_notes :: "string option"

record usage =
  tube_id :: "int option"
  user_name :: "string option"
  date_out :: "date"
  volume_taken :: "real option"
  purpose :: "string option"
  usage_notes :: "string option"

text \<open>The tables, each row with its primary key, in insertion order.\<close>

record db =
  tubes :: "(int \<times> tube) list"
  boxes :: "(int \<times> box) list"
  usages :: "(int \<times> usage) list"
  individuals :: "(int \<times> individual) list"
  samples :: "(int \<times> sample) list"

text \<open>The key the database gives to a new row: one more than the largest key in use.\<close>

definition new_id :: "(int \<times> 'a) list \<Rightarrow> int" where
  "new_id rows = fold max (map fst rows) 0 + 1"

text \<open>
  The outcomes other than success. The first two are exceptions that nothing catches, so
  that the reply has status 500: \<open>Overflow\<close> is an \<open>OverflowError\<close>, raised by \<open>float\<close> for
  an integer beyond the floats and by SQLite for an integer beyond 64 bits, before anything
  is committed; \<open>ResponseError\<close> is the \<open>ValueError\<close> of \<open>chr\<close> while the reply is built,
  after the commit. \<open>IntegrityError\<close> is a constraint that fails at the commit.
\<close>

datatype api_error =
    Overflow
  | ResponseError
  | IntegrityError
  | BarcodeExists
  | NotFound
  | NotANumber
  | InvalidAmount
  | TubeNotFound
  | InsufficientVolume real real
  | InvalidDate
  | HasUsages
  | BoxNotEmpty
  | IndividualExists
  | SampleExists
  | HasSamples
  | HasTubes

text \<open>An INTEGER of SQLite has 64 bits: a larger integer cannot be bound to a statement.\<close>

definition bindable :: "int option \<Rightarrow> bool" where
  "bindable v = (case v of None \<Rightarrow> True | Some n \<Rightarrow> - (2 ^ 63) \<le> n \<and> n < 2 ^ 63)"

text \<open>\<open>query.get_or_404(id)\<close> for a key that is not in the table: the reply 404, or the
  error of the statement when the key cannot be bound.\<close>

definition missing :: "int \<Rightarrow> api_error" where
  "missing i = (if bindable (Some i) then NotFound else Overflow)"

text \<open>
  A JSON request body for a tube: for each key, \<open>None\<close> when the key is absent,
  \<open>Some None\<close> when it is null. A volume or concentration that is not a number is stored
  as NULL, as null is.
\<close>

record tube_json =
  j_barcode :: "string option option"
  j_sample_id :: "int option option"
  j_box_id :: "int option option"
  j_position_row :: "int option option"
  j_position_col :: "int option option"
  j_concentration :: "real option option"
  j_quality :: "string option option"
  j_initial_volume :: "real option option"
  j_current_volume :: "real option option"
  j_source :: "string option option"
  j_tube_type :: "string option option"
  j_notes :: "string option option"

text \<open>\<open>data.get(key)\<close> and \<open>data.get(key, default)\<close>\<close>

definition jget :: "'a option option \<Rightarrow> 'a option" where
  "jget f = (case f of None \<Rightarrow> None | Some v \<Rightarrow> v)"

definition jget_default :: "'a option option \<Rightarrow> 'a \<Rightarrow> 'a option" where
  "jget_default f d = (case f of None \<Rightarrow> Some d | Some v \<Rightarrow> v)"

text \<open>\<open>if key in data: setattr(obj, key, data[key])\<close>\<close>

definition jset :: "'a option option \<Rightarrow> 'a option \<Rightarrow> 'a option" where
  "jset f old = (case f of None \<Rightarrow> old | Some v \<Rightarrow> v)"

text \<open>The row that \<open>create_tube\<close> builds from the request, the barcode being \<open>b\<close>.\<close>

definition tube_of_json :: "string \<Rightarrow> tube_json \<Rightarrow> tube" where
  "tube_of_json b data =
     \<lparr>barcode = b,
      sample_id = jget (j_sample_id data),
      box_id = jget (j_box_id data),
      position_row = jget (j_position_row data),
      position_col = jget (j_position_col data),
      concentration = jget (j_concentration data),
      quality = jget (j_quality data),
      initial_volume = jget (j_initial_volume data),
      current_volume = jget (j_current_volume data),
      source = jget (j_source data),
      tube_type = jget_default (j_tube_type data) ''stock'',
      tube_notes = jget (j_notes data)\<rparr>"

text \<open>The integers that a tube request gives for the four INTEGER columns can all be
  bound.\<close>

definition tube_ints_bindable :: "tube_json \<Rightarrow> bool" where
  "tube_ints_bindable data =
     (bindable (jget (j_sample_id data)) \<and> bindable (jget (j_box_id data)) \<and>
      bindable (jget (j_position_row data)) \<and> bindable (jget (j_position_col data)))"

text \<open>
  The reply of the tube routes, \<open>jsonify(tube.to_dict())\<close>, built after the commit:
  \<open>to_dict\<close> calls \<open>get_position_display\<close>, whose \<open>chr\<close> can raise. The reply of a
  successful request is modelled by the key of the tube.
\<close>

definition tube_reply :: "int \<Rightarrow> tube \<Rightarrow> api_error + int" where
  "tube_reply i t =
     (case get_position_display t of Inl e \<Rightarrow> Inl ResponseError | Inr shown \<Rightarrow> Inr i)"

text \<open>
  \<open>create_tube\<close>: the only check is that no tube has the barcode. The INSERT fails when
  an integer cannot be bound and, the barcode column being NOT NULL, when the request has
  no barcode. Every operation returns its outcome and the store after it; a request that
  fails before its commit leaves the store as it was.
\<close>

definition create_tube :: "db \<Rightarrow> tube_json \<Rightarrow> (api_error + int) \<times> db" where
  "create_tube d data =
     (case jget (j_barcode data) of
        None \<Rightarrow> (Inl (if tube_ints_bindable data then IntegrityError else Overflow), d)
      | Some b \<Rightarrow>
          if b \<in> set (map (barcode \<circ> snd) (tubes d)) then (Inl BarcodeExists, d)
          else if \<not> tube_ints_bindable data then (Inl Overflow, d)
          else
            (let i = new_id (tubes d); t = tube_of_json b data
             in (tube_reply i t, d\<lparr>tubes := tubes d @ [(i, t)]\<rparr>)))"

text \<open>Replace the row with key \<open>i\<close>.\<close>

definition set_row :: "int \<Rightarrow> 'a \<Rightarrow> (int \<times> 'a) list \<Rightarrow> (int \<times> 'a) list" where
  "set_row i v rows = map (\<lambda>(k, x). if k = i then (k, v) else (k, x)) rows"

definition delete_row :: "int \<Rightarrow> (int \<times> 'a) list \<Rightarrow> (int \<times> 'a) list" where
  "delete_row i rows = filter (\<lambda>(k, x). k \<noteq> i) rows"

text \<open>The loop of \<open>update_tube\<close> over the twelve keys, the new barcode being \<open>b\<close>.\<close>

definition assign_fields :: "tube \<Rightarrow> string \<Rightarrow> tube_json \<Rightarrow> tube" where
  "assign_fields t b data =
     \<lparr>barcode = b,
      sample_id = jset (j_sample_id data) (sample_id t),
      box_id = jset (j_box_id data) (box_id t),
      position_row = jset (j_position_row data) (position_row t),
      position_col = jset (j_position_col data) (position_col t),
      concentration = jset (j_concentration data) (concentration t),
      quality = jset (j_quality data) (quality t),
      initial_volume = jset (j_initial_volume data) (initial_volume t),
      current_volume = jset (j_current_volume data) (current_volume t),
      source = jset (j_source data) (source t),
      tube_type = jset (j_tube_type data) (tube_type t),
      tube_notes = jset (j_notes data) (tube_notes t)\<rparr>"

text \<open>
  \<open>update_tube\<close>: every key present in the request overwrites the column, unchecked.
  The UPDATE fails when an integer of the request cannot be bound, and when the barcode
  becomes null or equal to another tube's. The reply is built after the commit.
\<close>

definition update_tube :: "db \<Rightarrow> int \<Rightarrow> tube_json \<Rightarrow> (api_error + int) \<times> db" where
  "update_tube d i data =
     (case map_of (tubes d) i of
        None \<Rightarrow> (Inl (missing i), d)
      | Some t \<Rightarrow>
          if \<not> tube_ints_bindable data then (Inl Overflow, d)
          else
            (case jset (j_barcode data) (Some (barcode t)) of
               None \<Rightarrow> (Inl IntegrityError, d)
             | Some b \<Rightarrow>
                 if b \<in> set (map (barcode \<circ> snd) (delete_row i (tubes d)))
                 then (Inl IntegrityError, d)
                 else
                   (let t' = assign_fields t b data
                    in (tube_reply i t', d\<lparr>tubes := set_row i t' (tubes d)\<rparr>))))"

text \<open>\<open>delete_tube\<close>: refused while a usage refers to the tube.\<close>

definition delete_tube :: "db \<Rightarrow> int \<Rightarrow> (api_error + int) \<times> db" where
  "delete_tube d i =
     (case map_of (tubes d) i of
        None \<Rightarrow> (Inl (missing i), d)
      | Some t \<Rightarrow>
          if \<exists>u \<in> set (usages d). tube_id (snd u) = Some i then (Inl HasUsages, d)
          else (Inr i, d\<lparr>tubes := delete_row i (tubes d)\<rparr>))"

record box_json =
  jb_name :: "string option option"
  jb_box_type :: "string option option"
  jb_freezer :: "string option option"
  jb_notes :: "string option option"

definition create_box :: "db \<Rightarrow> box_json \<Rightarrow> (api_error + int) \<times> db" where
  "create_box d data =
     (let i = new_id (boxes d);
          b = \<lparr>box_name = jget (jb_name data),
               box_type = jget_default (jb_box_type data) ''stock'',
               freezer = jget (jb_freezer data),
               box_notes = jget (jb_notes data)\<rparr>
      in (Inr i, d\<lparr>boxes := boxes d @ [(i, b)]\<rparr>))"

definition update_box :: "db \<Rightarrow> int \<Rightarrow> box_json \<Rightarrow> (api_error + int) \<times> db" where
  "update_box d i data =
     (case map_of (boxes d) i of
        None \<Rightarrow> (Inl (missing i), d)
      | Some b \<Rightarrow>
          (let b' = \<lparr>box_name = jset (jb_name data) (box_name b),
                     box_type = jset (jb_box_type data) (box_type b),
                     freezer = jset (jb_freezer data) (freezer b),
                     box_notes = jset (jb_notes data) (box_notes b)\<rparr>
           in (Inr i, d\<lparr>boxes := set_row i b' (boxes d)\<rparr>)))"

definition delete_box :: "db \<Rightarrow> int \<Rightarrow> (api_error + int) \<times> db" where
  "delete_box d i =
     (case map_of (boxes d) i of
        None \<Rightarrow> (Inl (missing i), d)
      | Some b \<Rightarrow>
          if \<exists>t \<in> set (tubes d). box_id (snd t) = Some i then (Inl BoxNotEmpty, d)
          else (Inr i, d\<lparr>boxes := delete_row i (boxes d)\<rparr>))"

subsection \<open>Individuals and samples\<close>

record individual_json =
  ji_individual_id :: "string option option"
  ji_aliases :: "string option option"
  ji_family_id :: "string option option"
  ji_sex :: "int option option"
  ji_phenotype :: "string option option"
  ji_projects :: "string option option"
  ji_other_family_codes :: "string option option"
  ji_notes :: "string option option"

text \<open>
  \<open>create_individual\<close>: refused when an individual has the code; the code column is NOT
  NULL and \<open>sex\<close> is an INTEGER column.
\<close>

definition create_individual :: "db \<Rightarrow> individual_json \<Rightarrow> (api_error + int) \<times> db" where
  "create_individual d data =
     (case jget (ji_individual_id data) of
        None \<Rightarrow> (Inl (if bindable (jget (ji_sex data)) then IntegrityError else Overflow), d)
      | Some c \<Rightarrow>
          if c \<in> set (map (individual_id \<circ> snd) (individuals d)) then (Inl IndividualExists, d)
          else if \<not> bindable (jget (ji_sex data)) then (Inl Overflow, d)
          else
            (let i = new_id (individuals d);
                 p = \<lparr>individual_id = c,
                      aliases = jget (ji_aliases data),
                      family_id = jget (ji_family_id data),
                      sex = jget (ji_sex data),
                      phenotype = jget (ji_phenotype data),
                      projects = jget (ji_projects data),
                      other_family_codes = jget (ji_other_family_codes data),
                      individual_notes = jget (ji_notes data)\<rparr>
             in (Inr i, d\<lparr>individuals := individuals d @ [(i, p)]\<rparr>)))"

definition update_individual ::
  "db \<Rightarrow> int \<Rightarrow> individual_json \<Rightarrow> (api_error + int) \<times> db" where
  "update_individual d i data =
     (case map_of (individuals d) i of
        None \<Rightarrow> (Inl (missing i), d)
      | Some p \<Rightarrow>
          if \<not> bindable (jget (ji_sex data)) then (Inl Overflow, d)
          else
            (case jset (ji_individual_id data) (Some (individual_id p)) of
               None \<Rightarrow> (Inl IntegrityError, d)
             | Some c \<Rightarrow>
                 if c \<in> set (map (individual_id \<circ> snd) (delete_row i (individuals d)))
                 then (Inl IntegrityError, d)
                 else
                   (let p' = \<lparr>individual_id = c,
                              aliases = jset (ji_aliases data) (aliases p),
                              family_id = jset (ji_family_id data) (family_id p),
                              sex = jset (ji_sex data) (sex p),
                              phenotype = jset (ji_phenotype data) (phenotype p),
                              projects = jset (ji_projects data) (projects p),
                              other_family_codes =
                                jset (ji_other_family_codes data) (other_family_codes p),
                              individual_notes = jset (ji_notes data) (individual_notes p)\<rparr>
                    in (Inr i, d\<lparr>individuals := set_row i p' (individuals d)\<rparr>))))"

text \<open>\<open>delete_individual\<close>: refused while a sample belongs to the individual.\<close>

definition delete_individual :: "db \<Rightarrow> int \<Rightarrow> (api_error + int) \<times> db" where
  "delete_individual d i =
     (case map_of (individuals d) i of
        None \<Rightarrow> (Inl (missing i), d)
      | Some p \<Rightarrow>
          if \<exists>s \<in> set (samples d). s_individual_id (snd s) = Some i then (Inl HasSamples, d)
          else (Inr i, d\<lparr>individuals := delete_row i (individuals d)\<rparr>))"

text \<open>The routes under \<open>/api/sujets\<close> that write have the bodies of the three above.\<close>

definition create_sujet :: "db \<Rightarrow> individual_json \<Rightarrow> (api_error + int) \<times> db" where
  "create_sujet d data = create_individual d data"

definition update_sujet :: "db \<Rightarrow> int \<Rightarrow> individual_json \<Rightarrow> (api_error + int) \<times> db" where
  "update_sujet d i data = update_individual d i data"

definition delete_sujet :: "db \<Rightarrow> int \<Rightarrow> (api_error + int) \<times> db" where
  "delete_sujet d i = delete_individual d i"

record sample_json =
  js_sample_code :: "string option option"
  js_sample_id :: "string option option"
  js_individual_id :: "int option option"
  js_sample_type :: "string option option"
  js_arrival_date :: "string option option"
  js_notes :: "string option option"

text \<open>\<open>data.get('sample_code') or data.get('sample_id')\<close>: the first when it is a non-empty
  text.\<close>

definition sample_code_of :: "sample_json \<Rightarrow> string option" where
  "sample_code_of data =
     (case jget (js_sample_code data) of
        None \<Rightarrow> jget (js_sample_id data)
      | Some c \<Rightarrow> if c \<noteq> [] then Some c else jget (js_sample_id data))"

text \<open>
  \<open>create_sample\<close>. The calendar is outside the model: \<open>strptime\<close> stands for
  \<open>datetime.strptime(text, '%Y-%m-%d').date()\<close>, \<open>None\<close> when it raises.
\<close>

definition create_sample ::
  "(string \<Rightarrow> date option) \<Rightarrow> db \<Rightarrow> sample_json \<Rightarrow> (api_error + int) \<times> db" where
  "create_sample strptime d data =
     (let code = sample_code_of data;
          arrival = (case jget (js_arrival_date data) of None \<Rightarrow> [] | Some a \<Rightarrow> a)
      in
        if (case code of None \<Rightarrow> False | Some c \<Rightarrow> c \<in> set (map (s_sample_id \<circ> snd) (samples d)))
        then (Inl SampleExists, d)
        else if arrival \<noteq> [] \<and> strptime arrival = None then (Inl InvalidDate, d)
        else if \<not> bindable (jget (js_individual_id data)) then (Inl Overflow, d)
        else
          (case code of
             None \<Rightarrow> (Inl IntegrityError, d)
           | Some c \<Rightarrow>
               (let i = new_id (samples d);
                    s = \<lparr>s_sample_id = c,
                         s_individual_id = jget (js_individual_id data),
                         s_sample_type = jget (js_sample_type data),
                         s_arrival_date = (if arrival \<noteq> [] then strptime arrival else None),
                         s_notes = jget (js_notes data)\<rparr>
                in (Inr i, d\<lparr>samples := samples d @ [(i, s)]\<rparr>))))"

text \<open>
  \<open>update_sample\<close>: the key \<open>sample_code\<close> is assigned first, then \<open>sample_id\<close> and the
  three other keys; the arrival date is assigned when the key has a non-empty text, and a
  text that is no date ends the request before the commit.
\<close>

definition update_sample ::
  "(string \<Rightarrow> date option) \<Rightarrow> db \<Rightarrow> int \<Rightarrow> sample_json \<Rightarrow> (api_error + int) \<times> db" where
  "update_sample strptime d i data =
     (case map_of (samples d) i of
        None \<Rightarrow> (Inl (missing i), d)
      | Some s \<Rightarrow>
          (let code = jset (js_sample_id data) (jset (js_sample_code data) (Some (s_sample_id s)));
               arrival = (case jget (js_arrival_date data) of None \<Rightarrow> [] | Some a \<Rightarrow> a)
           in
             if arrival \<noteq> [] \<and> strptime arrival = None then (Inl InvalidDate, d)
             else if \<not> bindable (jget (js_individual_id data)) then (Inl Overflow, d)
             else
               (case code of
                  None \<Rightarrow> (Inl IntegrityError, d)
                | Some c \<Rightarrow>
                    if c \<in> set (map (s_sample_id \<circ> snd) (delete_row i (samples d)))
                    then (Inl IntegrityError, d)
                    else
                      (let s' = \<lparr>s_sample_id = c,
                                 s_individual_id =
                                   jset (js_individual_id data) (s_individual_id s),
                                 s_sample_type = jset (js_sample_type data) (s_sample_type s),
                                 s_arrival_date =
                                   (if arrival \<noteq> [] then strptime arrival else s_arrival_date s),
                                 s_notes = jset (js_notes data) (s_notes s)\<rparr>
                       in (Inr i, d\<lparr>samples := set_row i s' (samples d)\<rparr>)))))"

text \<open>\<open>delete_sample\<close>: refused while a tube belongs to the sample.\<close>

definition delete_sample :: "db \<Rightarrow> int \<Rightarrow> (api_error + int) \<times> db" where
  "delete_sample d i =
     (case map_of (samples d) i of
        None \<Rightarrow> (Inl (missing i), d)
      | Some s \<Rightarrow>
          if \<exists>t \<in> set (tubes d). sample_id (snd t) = Some i then (Inl HasTubes, d)
          else (Inr i, d\<lparr>samples := delete_row i (samples d)\<rparr>))"

text \<open>\<open>add_sample_to_sujet\<close>: a sample of the individual \<open>i\<close>, its code under the key
  \<open>sample_id\<close>.\<close>

definition add_sample_to_sujet :: "db \<Rightarrow> int \<Rightarrow> sample_json \<Rightarrow> (api_error + int) \<times> db" where
  "add_sample_to_sujet d i data =
     (case map_of (individuals d) i of
        None \<Rightarrow> (Inl (missing i), d)
      | Some p \<Rightarrow>
          (case jget (js_sample_id data) of
             None \<Rightarrow> (Inl IntegrityError, d)
           | Some c \<Rightarrow>
               if c \<in> set (map (s_sample_id \<circ> snd) (samples d)) then (Inl SampleExists, d)
               else
                 (let k = new_id (samples d);
                      s = \<lparr>s_sample_id = c,
                           s_individual_id = Some i,
                           s_sample_type = jget (js_sample_type data),
                           s_arrival_date = None,
                           s_notes = jget (js_notes data)\<rparr>
                  in (Inr k, d\<lparr>samples := samples d @ [(k, s)]\<rparr>))))"

subsection \<open>Usage recording\<close>

text \<open>
  The body of a usage request. What \<open>float(data['volume_taken'])\<close> does is carried by the
  request: it returns a number, it returns not-a-number (for the text \<open>nan\<close>), it raises
  \<open>ValueError\<close> or \<open>TypeError\<close>, which the route catches, or it raises \<open>OverflowError\<close> (for
  an integer beyond the floats), which nothing catches.
\<close>

datatype raw_number = Number real | NaN | NotNumber | TooLarge

record usage_json =
  ju_tube_id :: "int option"
  ju_user_name :: "string option"
  ju_date_out :: "string option"
  ju_volume_taken :: "raw_number option"
  ju_purpose :: "string option"
  ju_notes :: "string option"

text \<open>The amount after its validation: a number or not-a-number.\<close>

datatype amount = Amount real | AmountNaN

text \<open>
  \<open>create_usage\<close>, stage by stage in the order of the source. First the amount: absent,
  not a number, beyond the floats, not positive, or accepted; \<open>nan <= 0\<close> is false, so
  not-a-number is accepted.
\<close>

definition checked_volume_taken :: "raw_number option \<Rightarrow> api_error + amount option" where
  "checked_volume_taken raw =
     (case raw of
        None \<Rightarrow> Inr None
      | Some NotNumber \<Rightarrow> Inl NotANumber
      | Some TooLarge \<Rightarrow> Inl Overflow
      | Some NaN \<Rightarrow> Inr (Some AmountNaN)
      | Some (Number v) \<Rightarrow> if v \<le> 0 then Inl InvalidAmount else Inr (Some (Amount v)))"

text \<open>The tube, looked up only when the request names one (a key other than 0).\<close>

definition referenced_tube :: "db \<Rightarrow> int option \<Rightarrow> api_error + (int \<times> tube) option" where
  "referenced_tube d ref =
     (case ref of
        None \<Rightarrow> Inr None
      | Some i \<Rightarrow>
          if i = 0 then Inr None
          else (case map_of (tubes d) i of
                  None \<Rightarrow> Inl (if bindable (Some i) then TubeNotFound else Overflow)
                | Some t \<Rightarrow> Inr (Some (i, t))))"

text \<open>The truth value of a float: every float but zero, not-a-number included.\<close>

definition truthy :: "amount \<Rightarrow> bool" where
  "truthy a = (case a of Amount v \<Rightarrow> v \<noteq> 0 | AmountNaN \<Rightarrow> True)"

text \<open>
  The condition \<open>tube and volume_taken and tube.current_volume is not None\<close>, which guards
  both the check of the available volume and the decrement: when it holds, the tube's key,
  the tube, the amount and the current volume.
\<close>

definition withdrawal ::
  "(int \<times> tube) option \<Rightarrow> amount option \<Rightarrow> (int \<times> tube \<times> amount \<times> real) option" where
  "withdrawal tb vt =
     (case (tb, vt) of
        (Some (i, t), Some a) \<Rightarrow>
          (case current_volume t of
             Some cv \<Rightarrow> if truthy a then Some (i, t, a, cv) else None
           | None \<Rightarrow> None)
      | _ \<Rightarrow> None)"

text \<open>\<open>volume_taken > tube.current_volume\<close>; a comparison with not-a-number is false.\<close>

definition insufficient :: "(int \<times> tube \<times> amount \<times> real) option \<Rightarrow> api_error option" where
  "insufficient w =
     (case w of
        Some (i, t, a, cv) \<Rightarrow>
          (case a of
             Amount v \<Rightarrow> if v > cv then Some (InsufficientVolume cv v) else None
           | AmountNaN \<Rightarrow> None)
      | None \<Rightarrow> None)"

text \<open>The date: \<open>strptime\<close> as above, \<open>today\<close> for the current date.\<close>

definition checked_date_out ::
  "(string \<Rightarrow> date option) \<Rightarrow> date \<Rightarrow> string option \<Rightarrow> api_error + date" where
  "checked_date_out strptime today raw =
     (case raw of
        None \<Rightarrow> Inr today
      | Some s \<Rightarrow>
          if s = [] then Inr today
          else (case strptime s of None \<Rightarrow> Inl InvalidDate | Some dt \<Rightarrow> Inr dt))"

text \<open>What a REAL column keeps of a float: SQLite stores not-a-number as NULL.\<close>

definition sql_real :: "amount \<Rightarrow> real option" where
  "sql_real a = (case a of Amount v \<Rightarrow> Some v | AmountNaN \<Rightarrow> None)"

text \<open>The usage row built from the request.\<close>

definition usage_of_json :: "usage_json \<Rightarrow> amount option \<Rightarrow> date \<Rightarrow> usage" where
  "usage_of_json data vt dt =
     \<lparr>tube_id = ju_tube_id data,
      user_name = ju_user_name data,
      date_out = dt,
      volume_taken = (case vt of None \<Rightarrow> None | Some a \<Rightarrow> sql_real a),
      purpose = ju_purpose data,
      usage_notes = ju_notes data\<rparr>"

text \<open>
  \<open>tube.current_volume -= volume_taken\<close>: the float difference \<open>fsub cv v\<close>, and
  not-a-number when the amount is not a number.
\<close>

definition reduced :: "(real \<Rightarrow> real \<Rightarrow> real) \<Rightarrow> real \<Rightarrow> amount \<Rightarrow> amount" where
  "reduced fsub cv a = (case a of Amount v \<Rightarrow> Amount (fsub cv v) | AmountNaN \<Rightarrow> AmountNaN)"

text \<open>The usage row is added and the tube's volume reduced, in one commit.\<close>

definition store_usage ::
  "(real \<Rightarrow> real \<Rightarrow> real) \<Rightarrow> db \<Rightarrow> usage_json \<Rightarrow> amount option \<Rightarrow> date \<Rightarrow>
   (int \<times> tube \<times> amount \<times> real) option \<Rightarrow> (api_error + int) \<times> db" where
  "store_usage fsub d data vt dt w =
     (let u = usage_of_json data vt dt;
          k = new_id (usages d);
          ts = (case w of
                  Some (i, t, a, cv) \<Rightarrow>
                    set_row i (t\<lparr>current_volume := sql_real (reduced fsub cv a)\<rparr>) (tubes d)
                | None \<Rightarrow> tubes d)
      in (Inr k, d\<lparr>tubes := ts, usages := usages d @ [(k, u)]\<rparr>))"

definition create_usage ::
  "(real \<Rightarrow> real \<Rightarrow> real) \<Rightarrow> (string \<Rightarrow> date option) \<Rightarrow> date \<Rightarrow> db \<Rightarrow> usage_json \<Rightarrow>
   (api_error + int) \<times> db" where
  "create_usage fsub strptime today d data =
     (case checked_volume_taken (ju_volume_taken data) of
        Inl e \<Rightarrow> (Inl e, d)
      | Inr vt \<Rightarrow>
          (case referenced_tube d (ju_tube_id data) of
             Inl e \<Rightarrow> (Inl e, d)
           | Inr tb \<Rightarrow>
               (case insufficient (withdrawal tb vt) of
                  Some e \<Rightarrow> (Inl e, d)
                | None \<Rightarrow>
                    (case checked_date_out strptime today (ju_date_out data) of
                       Inl e \<Rightarrow> (Inl e, d)
                     | Inr dt \<Rightarrow> store_usage fsub d data vt dt (withdrawal tb vt)))))"

subsection \<open>The routes\<close>

text \<open>
  The requests that the application answers, one for each route of \<open>app.py\<close>; \<open>Page\<close> is
  any of the seven pages, which render a template. The parameters of the GET routes select
  and order what is read and are left out.
\<close>

datatype request =
    Page
  | GetIndividuals
  | GetIndividual int
  | CreateIndividual individual_json
  | UpdateIndividual int individual_json
  | DeleteIndividual int
  | GetSamples
  | GetSample int
  | CreateSample sample_json
  | UpdateSample int sample_json
  | DeleteSample int
  | GetTubes
  | ExportTubes
  | GetTube int
  | CreateTube tube_json
  | UpdateTube int tube_json
  | DeleteTube int
  | GetBoxes
  | GetBox int
  | CreateBox box_json
  | UpdateBox int box_json
  | DeleteBox int
  | GetUsages
  | CreateUsage usage_json
  | GetStats
  | GetFamilies
  | GetProjects
  | GetSampleTypes
  | GetSujets
  | GetSujet int
  | CreateSujet individual_json
  | UpdateSujet int individual_json
  | DeleteSujet int
  | AddSampleToSujet int sample_json

text \<open>
  The store after a request. The pages and the GET routes, the tube query and the export
  among them, only read: their bodies add, change and delete no row and commit nothing.
\<close>

definition store_after ::
  "(real \<Rightarrow> real \<Rightarrow> real) \<Rightarrow> (string \<Rightarrow> date option) \<Rightarrow> date \<Rightarrow> db \<Rightarrow> request \<Rightarrow> db" where
  "store_after fsub strptime today d r =
     (case r of
        Page \<Rightarrow> d
      | GetIndividuals \<Rightarrow> d
      | GetIndividual i \<Rightarrow> d
      | CreateIndividual data \<Rightarrow> snd (create_individual d data)
      | UpdateIndividual i data \<Rightarrow> snd (update_individual d i data)
      | DeleteIndividual i \<Rightarrow> snd (delete_individual d i)
      | GetSamples \<Rightarrow> d
      | GetSample i \<Rightarrow> d
      | CreateSample data \<Rightarrow> snd (create_sample strptime d data)
      | UpdateSample i data \<Rightarrow> snd (update_sample strptime d i data)
      | DeleteSample i \<Rightarrow> snd (delete_sample d i)
      | GetTubes \<Rightarrow> d
      | ExportTubes \<Rightarrow> d
      | GetTube i \<Rightarrow> d
      | CreateTube data \<Rightarrow> snd (create_tube d data)
      | UpdateTube i data \<Rightarrow> snd (update_tube d i data)
      | DeleteTube i \<Rightarrow> snd (delete_tube d i)
      | GetBoxes \<Rightarrow> d
      | GetBox i \<Rightarrow> d
      | CreateBox data \<Rightarrow> snd (create_box d data)
      | UpdateBox i data \<Rightarrow> snd (update_box d i data)
      | DeleteBox i \<Rightarrow> snd (delete_box d i)
      | GetUsages \<Rightarrow> d
      | CreateUsage data \<Rightarrow> snd (create_usage fsub strptime today d data)
      | GetStats \<Rightarrow> d
      | GetFamilies \<Rightarrow> d
      | GetProjects \<Rightarrow> d
      | GetSampleTypes \<Rightarrow> d
      | GetSujets \<Rightarrow> d
      | GetSujet i \<Rightarrow> d
      | CreateSujet data \<Rightarrow> snd (create_sujet d data)
      | UpdateSujet i data \<Rightarrow> snd (update_sujet d i data)
      | DeleteSujet i \<Rightarrow> snd (delete_sujet d i)
      | AddSampleToSujet i data \<Rightarrow> snd (add_sample_to_sujet d i data))"

section \<open>Import reconciler\<close>

text \<open>
  The script \<open>reimport_tubes_boxes.py\<close>. A row of the tab-separated file is a list of
  cells; a cell beyond the end of the row reads as the empty text.
\<close>

definition col :: "string list \<Rightarrow> nat \<Rightarrow> string" where
  "col row k = (if k < length row then row ! k else [])"

text \<open>
  \<open>float(text)\<close> is taken as a parameter \<open>py_float\<close>: nothing proved about the import
  depends on how a number is read. Its value is what the column keeps, \<open>None\<close> when
  \<open>float\<close> raises and when it gives not-a-number, which is stored as NULL.
\<close>

definition parse_volume :: "(string \<Rightarrow> real option) \<Rightarrow> string \<Rightarrow> real option" where
  "parse_volume py_float v =
     (if v = [] \<or> strip v = [] then None
      else py_float (map (\<lambda>c. if c = CHR '','' then CHR ''.'' else c)
                       (dropWhile (\<lambda>c. c = CHR ''<'') (strip v))))"

definition parse_concentration :: "(string \<Rightarrow> real option) \<Rightarrow> string \<Rightarrow> real option" where
  "parse_concentration py_float v =
     (if v = [] \<or> strip v = [] then None
      else py_float (map (\<lambda>c. if c = CHR '','' then CHR ''.'' else c) (strip v)))"

text \<open>\<open>sep.join(parts)\<close>\<close>

fun join :: "string \<Rightarrow> string list \<Rightarrow> string" where
  "join sep [] = []"
| "join sep [p] = p"
| "join sep (p # q # ps) = p @ sep @ join sep (q # ps)"

text \<open>Accented letters are written as their UTF-8 bytes.\<close>

definition build_freezer_info :: "string \<Rightarrow> string \<Rightarrow> string option" where
  "build_freezer_info frigo etage =
     (let parts = (if frigo \<noteq> [] \<and> strip frigo \<noteq> [] then [''Frigo '' @ strip frigo] else [])
                @ (if etage \<noteq> [] \<and> strip etage \<noteq> []
                   then [[CHR 0xC3, CHR 0x89] @ ''tage '' @ strip etage] else [])
      in if parts \<noteq> [] then Some (join '', '' parts) else None)"

definition build_notes :: "string \<Rightarrow> string \<Rightarrow> string \<Rightarrow> string option" where
  "build_notes code_alias degrade wga =
     (let parts = (if code_alias \<noteq> [] \<and> strip code_alias \<noteq> []
                   then [''Alias: '' @ strip code_alias] else [])
                @ (if degrade \<noteq> [] \<and> strip degrade \<noteq> []
                   then [''D'' @ [CHR 0xC3, CHR 0xA9] @ ''grad'' @ [CHR 0xC3, CHR 0xA9] @ '': ''
                         @ strip degrade] else [])
                @ (if wga \<noteq> [] \<and> strip wga \<noteq> [] then [''WGA: '' @ strip wga] else [])
      in if parts \<noteq> [] then Some (join ''; '' parts) else None)"

text \<open>
  Step 5, first loop: \<open>box_info\<close>, the boxes by name in the order of their first row;
  a later row of the same name changes nothing.
\<close>

definition box_info_row :: "(string \<times> box) list \<Rightarrow> string list \<Rightarrow> (string \<times> box) list" where
  "box_info_row box_info row =
     (let nom_boite = strip (col row 9) in
      if nom_boite = [] then box_info
      else if nom_boite \<in> set (map fst box_info) then box_info
      else
        (let frigo = strip (col row 6);
             etage = strip (col row 7);
             numero = strip (col row 8);
             btype = strip (col row 11)
         in box_info @
              [(nom_boite,
                \<lparr>box_name = Some nom_boite,
                 box_type = Some (if btype \<noteq> [] then btype else ''stock''),
                 freezer = build_freezer_info frigo etage,
                 box_notes = (if numero \<noteq> []
                              then Some (''N'' @ [CHR 0xC2, CHR 0xB0] @ '' bo''
                                         @ [CHR 0xC3, CHR 0xAE] @ ''te: '' @ numero)
                              else None)\<rparr>)]))"

text \<open>Step 5, second loop: each box is added and flushed, and its key noted by name.\<close>

definition create_boxes ::
  "db \<Rightarrow> (string \<times> box) list \<Rightarrow> db \<times> (string \<times> int) list" where
  "create_boxes d box_info =
     foldl (\<lambda>(d', ids) (name, b).
              (let i = new_id (boxes d')
               in (d'\<lparr>boxes := boxes d' @ [(i, b)]\<rparr>, ids @ [(name, i)])))
           (d, []) box_info"

text \<open>Decimal numerals determine their number; the loop below ends for that reason.\<close>

lemma digit_char_ok:
  "d < 10 \<Longrightarrow> is_digit (char_of (48 + d)) \<and> digit_val (char_of (48 + d)) = d"
  by (simp add: is_digit_def digit_val_def)

lemma digits_value_nat_str: "foldl (\<lambda>a c. 10 * a + digit_val c) 0 (nat_str n) = n"
proof (induction n rule: nat_str.induct)
  case (1 n)
  show ?case
  proof (cases "n < 10")
    case True
    then show ?thesis using digit_char_ok [of n] by (simp add: nat_str.simps [of n])
  next
    case False
    then show ?thesis using 1 digit_char_ok [of "n mod 10"] by (simp add: nat_str.simps [of n])
  qed
qed

lemma nat_str_inj: "nat_str m = nat_str n \<Longrightarrow> m = n"
  by (metis digits_value_nat_str)

text \<open>
  The loop \<open>while new_sample_id in sample_by_code\<close> from its first suffixed candidate on:
  the first of \<open>code_T1\<close>, \<open>code_T2\<close>, ... that is no key of the dictionary.
\<close>

function suffixed_code :: "string list \<Rightarrow> string \<Rightarrow> nat \<Rightarrow> string" where
  "suffixed_code keys clean_code suffix =
     (if clean_code @ ''_T'' @ nat_str suffix \<in> set keys
      then suffixed_code keys clean_code (Suc suffix)
      else clean_code @ ''_T'' @ nat_str suffix)"
  by pat_completeness auto
termination
proof (relation "measure (\<lambda>(keys, clean_code, suffix).
          card {k. suffix \<le> k \<and> clean_code @ ''_T'' @ nat_str k \<in> set keys})")
  show "wf (measure (\<lambda>(keys, clean_code, suffix).
          card {k. suffix \<le> k \<and> clean_code @ ''_T'' @ nat_str k \<in> set keys}))"
    by simp
next
  fix keys :: "string list" and clean_code :: string and suffix :: nat
  assume a: "clean_code @ ''_T'' @ nat_str suffix \<in> set keys"
  let ?f = "\<lambda>k. clean_code @ ''_T'' @ nat_str k"
  have "inj ?f" by (auto intro!: injI dest: nat_str_inj)
  then have fin: "finite {k. ?f k \<in> set keys}"
    using finite_vimageI [of "set keys" ?f] by (simp add: vimage_def)
  have "suffix \<in> {k. suffix \<le> k \<and> ?f k \<in> set keys}"
       "suffix \<notin> {k. Suc suffix \<le> k \<and> ?f k \<in> set keys}"
       "{k. Suc suffix \<le> k \<and> ?f k \<in> set keys} \<subseteq> {k. suffix \<le> k \<and> ?f k \<in> set keys}"
    using a by auto
  then have "{k. Suc suffix \<le> k \<and> ?f k \<in> set keys} \<subset> {k. suffix \<le> k \<and> ?f k \<in> set keys}"
    by blast
  moreover have "finite {k. suffix \<le> k \<and> ?f k \<in> set keys}"
    using fin by (rule rev_finite_subset) auto
  ultimately have "card {k. Suc suffix \<le> k \<and> ?f k \<in> set keys}
                     < card {k. suffix \<le> k \<and> ?f k \<in> set keys}"
    by (rule psubset_card_mono [rotated])
  then show "((keys, clean_code, Suc suffix), (keys, clean_code, suffix))
          \<in> measure (\<lambda>(keys, clean_code, suffix).
               card {k. suffix \<le> k \<and> clean_code @ ''_T'' @ nat_str k \<in> set keys})"
    by simp
qed

declare suffixed_code.simps [simp del]

definition unique_sample_id :: "string list \<Rightarrow> string \<Rightarrow> string" where
  "unique_sample_id keys clean_code =
     (if clean_code \<in> set keys then suffixed_code keys clean_code 1 else clean_code)"

text \<open>\<open>text.rstrip('\<dagger>')\<close> on the reversed text: the dagger is the three bytes E2 80 A0.\<close>

fun drop_daggers_rev :: "string \<Rightarrow> string" where
  "drop_daggers_rev (a # b # c # s) =
     (if a = CHR 0xA0 \<and> b = CHR 0x80 \<and> c = CHR 0xE2 then drop_daggers_rev s
      else a # b # c # s)"
| "drop_daggers_rev s = s"

definition rstrip_dagger :: "string \<Rightarrow> string" where
  "rstrip_dagger s = rev (drop_daggers_rev (rev s))"

text \<open>
  What the block "find individual and sample" reads and writes: the two dictionaries of
  samples loaded in step 4 (\<open>sample_by_code\<close> with its keys in insertion order), the
  samples added to the session with the key that the flush gives each, the next such key,
  and the four link counters.
\<close>

record link_state =
  sample_by_individual :: "int \<Rightarrow> int option"
  sample_by_code :: "(string \<times> int) list"
  session_samples :: "(int \<times> sample) list"
  next_sample_key :: int
  linked_to_individual :: nat
  not_linked :: nat
  samples_created :: nat
  samples_reused :: nat

text \<open>
  The block "find individual and sample" of the loop body, from the main code, the alias
  and the tissue of the row to the sample key of the tube. \<open>individual_map\<close> is the
  dictionary of step 4 from individual codes to keys.
\<close>

definition link_sample ::
  "(string \<Rightarrow> int option) \<Rightarrow> string \<Rightarrow> string \<Rightarrow> string \<Rightarrow> link_state \<Rightarrow>
   int option \<times> link_state" where
  "link_sample individual_map code_principal code_alias tissus l =
     (if code_principal \<noteq> [] then
        (let clean_code = strip (rstrip_dagger code_principal) in
         case individual_map clean_code of
           None \<Rightarrow> (None, l\<lparr>not_linked := not_linked l + 1\<rparr>)
         | Some individual_db_id \<Rightarrow>
             if individual_db_id = 0 then (None, l\<lparr>not_linked := not_linked l + 1\<rparr>)
             else
               (let l1 = l\<lparr>linked_to_individual := linked_to_individual l + 1\<rparr> in
                case sample_by_individual l1 individual_db_id of
                  Some sid \<Rightarrow> (Some sid, l1\<lparr>samples_reused := samples_reused l1 + 1\<rparr>)
                | None \<Rightarrow>
                    (let new_sample_id = unique_sample_id (map fst (sample_by_code l1)) clean_code;
                         sid = next_sample_key l1;
                         smp = \<lparr>s_sample_id = new_sample_id,
                                s_individual_id = Some individual_db_id,
                                s_sample_type = (if tissus \<noteq> [] then Some tissus else None),
                                s_arrival_date = None,
                                s_notes = (if code_alias \<noteq> []
                                           then Some (''Alias: '' @ code_alias) else None)\<rparr>
                     in (Some sid,
                         l1\<lparr>session_samples := session_samples l1 @ [(sid, smp)],
                            next_sample_key := sid + 1,
                            sample_by_individual :=
                              (sample_by_individual l1)(individual_db_id \<mapsto> sid),
                            sample_by_code := sample_by_code l1 @ [(new_sample_id, sid)],
                            samples_created := samples_created l1 + 1\<rparr>))))
      else (None, l\<lparr>not_linked := not_linked l + 1\<rparr>))"

text \<open>
  The state of the tube loop of step 6: the counters, the two seen sets, the tubes added to
  the session, and in \<open>link\<close> the state of the block that finds the sample.
\<close>

record import_state =
  created :: nat
  skipped_dup_barcode :: nat
  skipped_dup_position :: nat
  skipped_no_barcode :: nat
  seen_barcodes :: "string set"
  seen_positions :: "(string \<times> string \<times> string) set"
  session_tubes :: "tube list"
  link :: link_state

text \<open>One pass of the loop body.\<close>

definition import_row ::
  "(string \<Rightarrow> real option) \<Rightarrow> (string \<Rightarrow> int option) \<Rightarrow> (string \<Rightarrow> int option) \<Rightarrow>
   import_state \<Rightarrow> string list \<Rightarrow> import_state" where
  "import_row py_float individual_map box_name_to_id st row =
     (let bcode = strip (col row 0);
          code_principal = strip (col row 1);
          code_alias = strip (col row 2);
          volume_str = col row 3;
          pos_h_str = col row 4;
          pos_v_str = col row 5;
          nom_boite = strip (col row 9);
          concentration_str = col row 12;
          degrade = strip (col row 13);
          tissus = strip (col row 14);
          wga = strip (col row 15)
      in
        if bcode = [] then st\<lparr>skipped_no_barcode := skipped_no_barcode st + 1\<rparr>
        else if bcode \<in> seen_barcodes st
        then st\<lparr>skipped_dup_barcode := skipped_dup_barcode st + 1\<rparr>
        else
          (let st1 = st\<lparr>seen_barcodes := insert bcode (seen_barcodes st)\<rparr>;
               keyed = (nom_boite \<noteq> [] \<and> strip pos_h_str \<noteq> [] \<and> strip pos_v_str \<noteq> []);
               pos_key = (nom_boite, strip pos_h_str, strip pos_v_str)
           in
             if keyed \<and> pos_key \<in> seen_positions st1
             then st1\<lparr>skipped_dup_position := skipped_dup_position st1 + 1\<rparr>
             else
               (let st2 = (if keyed
                           then st1\<lparr>seen_positions := insert pos_key (seen_positions st1)\<rparr>
                           else st1);
                    linked = link_sample individual_map code_principal code_alias tissus (link st2);
                    volume = parse_volume py_float volume_str;
                    t = \<lparr>barcode = bcode,
                         sample_id = fst linked,
                         box_id = box_name_to_id nom_boite,
                         position_row = parse_position_v pos_v_str,
                         position_col = parse_position_h pos_h_str,
                         concentration = parse_concentration py_float concentration_str,
                         quality = (if degrade \<noteq> [] then Some degrade else None),
                         initial_volume = volume,
                         current_volume = volume,
                         source = (if tissus \<noteq> [] then Some tissus else None),
                         tube_type = Some ''stock'',
                         tube_notes = build_notes code_alias degrade wga\<rparr>
                in st2\<lparr>link := snd linked,
                       session_tubes := session_tubes st2 @ [t],
                       created := created st2 + 1\<rparr>)))"

definition import_start :: "link_state \<Rightarrow> import_state" where
  "import_start l =
     \<lparr>created = 0, skipped_dup_barcode = 0, skipped_dup_position = 0,
      skipped_no_barcode = 0, seen_barcodes = {}, seen_positions = {},
      session_tubes = [], link = l\<rparr>"

text \<open>The tube loop over all rows.\<close>

definition import_tubes ::
  "(string \<Rightarrow> real option) \<Rightarrow> (string \<Rightarrow> int option) \<Rightarrow> (string \<Rightarrow> int option) \<Rightarrow>
   link_state \<Rightarrow> string list list \<Rightarrow> import_state" where
  "import_tubes py_float individual_map box_name_to_id l rows =
     foldl (import_row py_float individual_map box_name_to_id) (import_start l) rows"

text \<open>The session's tubes receive their keys when they are committed, in order.\<close>

definition add_tubes :: "(int \<times> tube) list \<Rightarrow> tube list \<Rightarrow> (int \<times> tube) list" where
  "add_tubes rows ts = foldl (\<lambda>acc t. acc @ [(new_id acc, t)]) rows ts"

text \<open>
  \<open>main\<close>: purge usages, tubes and boxes; keep the file's rows of at least 12 cells (the
  header is already taken off); create the boxes; run the tube loop. The individuals and
  samples are kept by the purge. The dictionaries that step 4 loads from them are given,
  \<open>individual_map\<close> and, in \<open>l\<close>, the two sample dictionaries and the next sample key,
  with empty session and zero counters. The commits every 500 tubes and the last one add up
  to all the session's tubes and samples; a failing commit is outside the model.
\<close>

definition main ::
  "(string \<Rightarrow> real option) \<Rightarrow> (string \<Rightarrow> int option) \<Rightarrow> link_state \<Rightarrow> db \<Rightarrow>
   string list list \<Rightarrow> db \<times> import_state" where
  "main py_float individual_map l d file_rows =
     (let d1 = d\<lparr>tubes := [], boxes := [], usages := []\<rparr>;
          rows = filter (\<lambda>row. length row \<ge> 12) file_rows;
          box_info = foldl box_info_row [] rows;
          made = create_boxes d1 box_info;
          st = import_tubes py_float individual_map (map_of (snd made)) l rows
      in ((fst made)\<lparr>tubes := add_tubes [] (session_tubes st),
                     samples := samples d @ session_samples (link st)\<rparr>, st))"

section \<open>Notions used in the statements\<close>

text \<open>The barcode cell of a row as the tube loop reads it.\<close>

definition row_barcode :: "string list \<Rightarrow> string" where
  "row_barcode row = strip (col row 0)"

text \<open>The non-empty barcodes of the rows, in order, with repetitions.\<close>

definition barcodes_of :: "string list list \<Rightarrow> string list" where
  "barcodes_of rows = filter (\<lambda>b. b \<noteq> []) (map row_barcode rows)"

text \<open>The rows without those whose non-empty barcode occurred in an earlier row or in
  \<open>seen\<close>.\<close>

fun keep_first :: "string set \<Rightarrow> string list list \<Rightarrow> string list list" where
  "keep_first seen [] = []"
| "keep_first seen (row # rows) =
     (if row_barcode row = [] then row # keep_first seen rows
      else if row_barcode row \<in> seen then keep_first seen rows
      else row # keep_first (insert (row_barcode row) seen) rows)"

text \<open>The session's tubes have pairwise different barcodes, all of them seen.\<close>

definition barcodes_tracked :: "import_state \<Rightarrow> bool" where
  "barcodes_tracked st =
     (distinct (map barcode (session_tubes st))
      \<and> set (map barcode (session_tubes st)) \<subseteq> seen_barcodes st)"





text \<open>Every tube of \<open>d\<close> that is still in \<open>d'\<close> has the same current volume there.\<close>

definition keeps_volumes :: "db \<Rightarrow> db \<Rightarrow> bool" where
  "keeps_volumes d d' =
     list_all (\<lambda>k. case (map_of (tubes d) k, map_of (tubes d') k) of
                      (Some t, Some t') \<Rightarrow> current_volume t' = current_volume t
                    | _ \<Rightarrow> True)
              (map fst (tubes d))"






text \<open>The requests that can write the column \<open>current_volume\<close> of an existing tube: a
  usage, and a tube update whose body has the key \<open>current_volume\<close>.\<close>

definition writes_current_volume :: "request \<Rightarrow> bool" where
  "writes_current_volume r =
     (case r of
        CreateUsage data \<Rightarrow> True
      | UpdateTube i data \<Rightarrow> j_current_volume data \<noteq> None
      | _ \<Rightarrow> False)"


text \<open>A tube made from one of the rows: it has the barcode of the row, and the parsed
  volume cell of the row as both volumes.\<close>

definition made_from :: "(string \<Rightarrow> real option) \<Rightarrow> string list list \<Rightarrow> tube \<Rightarrow> bool" where
  "made_from pf rows t =
     (\<exists>row \<in> set rows. barcode t = row_barcode row
        \<and> initial_volume t = parse_volume pf (col row 3)
        \<and> current_volume t = parse_volume pf (col row 3))"

section \<open>Example data\<close>

definition tube0 :: tube where
  "tube0 = \<lparr>barcode = ''T1'', sample_id = None, box_id = None, position_row = None,
            position_col = None, concentration = None, quality = None, initial_volume = None,
            current_volume = None, source = None, tube_type = Some ''stock'', tube_notes = None\<rparr>"

text \<open>A store with tube 1 at A1 of box 1 holding 10 of 100 microlitres, and tube 2 without
  box, position or volumes.\<close>

definition db1 :: db where
  "db1 = \<lparr>tubes = [(1, tube0\<lparr>box_id := Some 1, position_row := Some 1, position_col := Some 1,
                              initial_volume := Some 100, current_volume := Some 10\<rparr>),
                   (2, tube0\<lparr>barcode := ''T2''\<rparr>)],
          boxes = [], usages = [], individuals = [], samples = []\<rparr>"

definition empty_db :: db where
  "empty_db = \<lparr>tubes = [], boxes = [], usages = [], individuals = [], samples = []\<rparr>"

definition usage_request :: "int \<Rightarrow> real \<Rightarrow> usage_json" where
  "usage_request i v = \<lparr>ju_tube_id = Some i, ju_user_name = Some ''lab'', ju_date_out = None,
       ju_volume_taken = Some (Number v), ju_purpose = None, ju_notes = None\<rparr>"

text \<open>A usage request whose amount is the text \<open>nan\<close>.\<close>

definition nan_request :: "int \<Rightarrow> usage_json" where
  "nan_request i = \<lparr>ju_tube_id = Some i, ju_user_name = Some ''lab'', ju_date_out = None,
       ju_volume_taken = Some NaN, ju_purpose = None, ju_notes = None\<rparr>"


definition no_change :: tube_json where
  "no_change = \<lparr>j_barcode = None, j_sample_id = None, j_box_id = None,
       j_position_row = None, j_position_col = None, j_concentration = None, j_quality = None,
       j_initial_volume = None, j_current_volume = None, j_source = None, j_tube_type = None,
       j_notes = None\<rparr>"

definition no_date :: "string \<Rightarrow> date option" where
  "no_date s = None"

text \<open>The subtraction without rounding, as it is for floats whose difference is a float.\<close>

definition exact_sub :: "real \<Rightarrow> real \<Rightarrow> real" where
  "exact_sub x y = x - y"

text \<open>Rows of the file: barcode, position column (cell 4), position letter (cell 5) and
  box name (cell 9).\<close>

definition file_row :: "string \<Rightarrow> string \<Rightarrow> string \<Rightarrow> string list" where
  "file_row b h v = [b, [], [], [], h, v, [], [], [], ''B1'', [], ''stock'']"

text \<open>A row without position and box, with a volume cell (cell 3).\<close>

definition volume_row :: "string \<Rightarrow> string \<Rightarrow> string list" where
  "volume_row b vol = [b, [], [], vol, [], [], [], [], [], [], [], ''stock'']"

text \<open>No individual is known and no sample exists.\<close>

definition no_individuals :: "string \<Rightarrow> int option" where
  "no_individuals code = None"

definition link0 :: link_state where
  "link0 = \<lparr>sample_by_individual = (\<lambda>i. None), sample_by_code = [], session_samples = [],
            next_sample_key = 1, linked_to_individual = 0, not_linked = 0,
            samples_created = 0, samples_reused = 0\<rparr>"

definition no_float :: "string \<Rightarrow> real option" where
  "no_float s = None"

text \<open>A reader of numbers that knows the decimal integers only.\<close>

definition int_float :: "string \<Rightarrow> real option" where
  "int_float s = map_option real_of_int (py_int s)"

section \<open>Numbers as text\<close>

lemma nat_str_digits: "list_all is_digit (nat_str n)"
proof (induction n rule: nat_str.induct)
  case (1 n)
  show ?case
  proof (cases "n < 10")
    case True
    then show ?thesis using digit_char_ok [of n] by (simp add: nat_str.simps [of n])
  next
    case False
    then show ?thesis using 1 digit_char_ok [of "n mod 10"] by (simp add: nat_str.simps [of n])
  qed
qed

lemma nat_str_nonempty: "nat_str n \<noteq> []"
  by (subst nat_str.simps) simp

lemma parse_digits_all:
  "list_all is_digit s \<Longrightarrow>
     parse_digits acc s = Some (foldl (\<lambda>a c. 10 * a + digit_val c) acc s)"
  by (induction acc s rule: parse_digits.induct) simp_all

lemma int_body_nat_str: "int_body (nat_str n) = Some n"
proof -
  obtain c cs where s: "nat_str n = c # cs"
    using nat_str_nonempty [of n] by (cases "nat_str n") auto
  have d: "is_digit c" "list_all is_digit cs" using nat_str_digits [of n] s by auto
  have "foldl (\<lambda>a c. 10 * a + digit_val c) 0 (c # cs)
          = foldl (\<lambda>a c. 10 * a + digit_val c) (digit_val c) cs"
    by simp
  then show ?thesis
    using d s digits_value_nat_str [of n] by (simp add: int_body_def parse_digits_all)
qed

lemma digit_not_space: "is_digit c \<Longrightarrow> \<not> is_space c"
  by (auto simp: is_digit_def is_space_def Let_def)

lemma strip_id:
  "s \<noteq> [] \<Longrightarrow> \<not> is_space (hd s) \<Longrightarrow> \<not> is_space (last s) \<Longrightarrow> strip s = s"
proof -
  assume a: "s \<noteq> []" "\<not> is_space (hd s)" "\<not> is_space (last s)"
  have l: "lstrip s = s" using a by (simp add: lstrip_def dropWhile_eq_self_iff)
  have "hd (rev s) = last s" using a by (simp add: hd_rev)
  then have "dropWhile is_space (rev s) = rev s" using a by (simp add: dropWhile_eq_self_iff)
  then show ?thesis using l by (simp add: strip_def rstrip_def)
qed

lemma nat_str_ends: "\<not> is_space (hd (nat_str n))" "\<not> is_space (last (nat_str n))"
proof -
  show "\<not> is_space (hd (nat_str n))"
    using nat_str_digits [of n] nat_str_nonempty [of n]
    by (cases "nat_str n") (auto dest: digit_not_space)
  show "\<not> is_space (last (nat_str n))"
    using nat_str_digits [of n] nat_str_nonempty [of n]
    by (auto simp: list_all_iff dest!: digit_not_space)
qed

lemma py_str_nonempty: "py_str i \<noteq> []"
  by (simp add: py_str_def nat_str_nonempty)

lemma strip_py_str: "strip (py_str i) = py_str i"
proof (cases "i < 0")
  case True
  have "strip (CHR ''-'' # nat_str (nat (- i))) = CHR ''-'' # nat_str (nat (- i))"
    using nat_str_ends(2) [of "nat (- i)"] nat_str_nonempty [of "nat (- i)"]
    by (intro strip_id) (auto simp: is_space_def)
  then show ?thesis using True by (simp add: py_str_def)
next
  case False
  then show ?thesis
    using nat_str_ends [of "nat i"] nat_str_nonempty [of "nat i"]
    by (simp add: py_str_def strip_id)
qed

text \<open>Reading back what \<open>str\<close> wrote gives the number.\<close>

lemma py_int_py_str: "py_int (py_str i) = Some i"
proof (cases "i < 0")
  case True
  then have "py_str i = CHR ''-'' # nat_str (nat (- i))" by (simp add: py_str_def)
  then have "strip (py_str i) = CHR ''-'' # nat_str (nat (- i))"
    using strip_py_str [of i] by simp
  then show ?thesis using True by (simp add: py_int_def int_body_nat_str)
next
  case False
  obtain c cs where e: "nat_str (nat i) = c # cs"
    using nat_str_nonempty [of "nat i"] by (cases "nat_str (nat i)") auto
  have "is_digit c" using nat_str_digits [of "nat i"] e by simp
  then have c: "c \<noteq> CHR ''-''" "c \<noteq> CHR ''+''" by (auto simp: is_digit_def)
  have b: "int_body (c # cs) = Some (nat i)" using int_body_nat_str [of "nat i"] e by simp
  have "strip (py_str i) = c # cs" using strip_py_str [of i] False e by (simp add: py_str_def)
  then show ?thesis using False b c by (simp add: py_int_def)
qed

lemma parse_position_h_py_str: "parse_position_h (py_str c) = Some c"
  by (simp add: parse_position_h_def strip_py_str py_str_nonempty py_int_py_str)

lemma row_letter:
  "1 \<le> r \<Longrightarrow> r \<le> 9 \<Longrightarrow> parse_position_v [char_of (nat (64 + r))] = Some r"
proof -
  assume "1 \<le> r" "r \<le> 9"
  then have "r = 1 \<or> r = 2 \<or> r = 3 \<or> r = 4 \<or> r = 5 \<or> r = 6 \<or> r = 7 \<or> r = 8 \<or> r = 9"
    by arith
  then show ?thesis
    by (elim disjE)
       (simp_all add: parse_position_v_def strip_def lstrip_def rstrip_def is_space_def
          upper_def upper_char_def)
qed

lemma row_letter_none:
  "10 \<le> r \<Longrightarrow> r \<le> 26 \<Longrightarrow> parse_position_v [char_of (nat (64 + r))] = None"
proof -
  assume a: "10 \<le> r" "r \<le> 26"
  define n where "n = nat (64 + r)"
  have n: "74 \<le> n" "n \<le> 90" using a by (auto simp: n_def)
  then have oc: "(of_char (char_of n :: char) :: nat) = n" by simp
  have sp: "\<not> is_space (char_of n)" using n oc by (simp add: is_space_def Let_def)
  have up: "upper_char (char_of n) = char_of n" using n oc by (simp add: upper_char_def Let_def)
  show ?thesis
    unfolding n_def [symmetric] using sp up n oc
    by (simp add: parse_position_v_def strip_def lstrip_def rstrip_def upper_def)
qed

section \<open>Position display and parsing\<close>

text \<open>
  Claim C5, as amended. For a row from 1 to 26 and a column from 1 to 99 the displayed
  position is the row's letter followed by the column number; the column text parses back
  to the column; the letter parses back to the row for the rows 1 to 9 (A to I), and to no
  position for the rows 10 to 26 (J to Z), because \<open>parse_position_v\<close> knows the nine
  letters of the grid only.
\<close>

theorem position_round_trip_grid:
  "1 \<le> r \<and> r \<le> 26 \<and> 1 \<le> c \<and> c \<le> 99 \<Longrightarrow>
     \<exists>shown. get_position_display (t\<lparr>position_row := Some r, position_col := Some c\<rparr>)
                = Inr (Some shown)
       \<and> hd shown = char_of (nat (64 + r))
       \<and> parse_position_h (tl shown) = Some c
       \<and> parse_position_v [hd shown] = (if r \<le> 9 then Some r else None)"
  by (simp add: get_position_display_def parse_position_h_py_str row_letter row_letter_none)

text \<open>Row 9, column 99 is shown as I99 and read back; row 1 is shown as A and row 26
  as Z.\<close>

theorem position_round_trip_grid_witness:
  "get_position_display (tube0\<lparr>position_row := Some 9, position_col := Some 99\<rparr>)
     = Inr (Some ''I99'') \<and>
   parse_position_v ''I'' = Some 9 \<and> parse_position_h ''99'' = Some 99 \<and>
   get_position_display (tube0\<lparr>position_row := Some 1, position_col := Some 1\<rparr>)
     = Inr (Some ''A1'') \<and>
   get_position_display (tube0\<lparr>position_row := Some 26, position_col := Some 1\<rparr>)
     = Inr (Some ''Z1'')"
proof -
  have d: "get_position_display (tube0\<lparr>position_row := Some 9, position_col := Some 99\<rparr>)
             = Inr (Some ''I99'')"
    "get_position_display (tube0\<lparr>position_row := Some 1, position_col := Some 1\<rparr>)
             = Inr (Some ''A1'')"
    "get_position_display (tube0\<lparr>position_row := Some 26, position_col := Some 1\<rparr>)
             = Inr (Some ''Z1'')"
    by (simp_all add: get_position_display_def py_str_def nat_str.simps char_of_def bit_iff_odd)
  have "(1::int) \<le> 9 \<and> (9::int) \<le> 26 \<and> (1::int) \<le> 99 \<and> (99::int) \<le> 99" by simp
  from position_round_trip_grid [OF this, of tube0]
  have "parse_position_v ''I'' = Some 9 \<and> parse_position_h ''99'' = Some 99"
    using d(1) by (simp add: char_of_def bit_iff_odd)
  then show ?thesis using d by simp
qed

text \<open>Claim C5 as stated fails at row 10, column 1: the display is J1, and the letter J
  parses to no row.\<close>

theorem position_round_trip_counterexample:
  "get_position_display (tube0\<lparr>position_row := Some 10, position_col := Some 1\<rparr>)
     = Inr (Some ''J1'') \<and>
   parse_position_v ''J'' = None \<and> parse_position_h ''1'' = Some 1"
  by (simp add: get_position_display_def py_str_def nat_str.simps parse_position_v_def
      parse_position_h_def strip_def lstrip_def rstrip_def is_space_def upper_def upper_char_def
      py_int_def int_body_def is_digit_def digit_val_def char_of_def bit_iff_odd)

section \<open>Status\<close>

text \<open>
  Claim C2. The status of a tube is Empty when the current volume is unset or at most 0,
  Critical when it is above 0 and below 10, Low when it is at least 10, the initial volume
  is known and the current volume is below a quarter of it, and Available otherwise; a tube
  with volumes 5 of 100 is Critical and one with 20 of 100 is Low.
\<close>

theorem get_status_thresholds:
  "(current_volume t = None \<or> (\<exists>cv. current_volume t = Some cv \<and> cv \<le> 0)
      \<longrightarrow> get_status t = ''Empty'') \<and>
   (\<forall>cv. current_volume t = Some cv \<and> 0 < cv \<and> cv < 10 \<longrightarrow> get_status t = ''Critical'') \<and>
   (\<forall>cv iv. current_volume t = Some cv \<and> 10 \<le> cv \<and> initial_volume t = Some iv
            \<and> cv < 25 / 100 * iv
      \<longrightarrow> get_status t = ''Low'') \<and>
   (\<forall>cv. current_volume t = Some cv \<and> 10 \<le> cv \<and>
         (initial_volume t = None \<or> (\<exists>iv. initial_volume t = Some iv \<and> \<not> cv < 25 / 100 * iv))
      \<longrightarrow> get_status t = ''Available'') \<and>
   (current_volume t = Some 5 \<and> initial_volume t = Some 100 \<longrightarrow> get_status t = ''Critical'') \<and>
   (current_volume t = Some 20 \<and> initial_volume t = Some 100 \<longrightarrow> get_status t = ''Low'')"
  by (auto simp: get_status_def split: option.splits)

text \<open>One tube for each status, the two scenarios among them, and a tube whose initial
  volume is 0.\<close>

theorem get_status_thresholds_witness:
  "get_status (tube0\<lparr>current_volume := Some 0\<rparr>) = ''Empty'' \<and>
   get_status (tube0\<lparr>current_volume := Some 5, initial_volume := Some 100\<rparr>) = ''Critical'' \<and>
   get_status (tube0\<lparr>current_volume := Some 20, initial_volume := Some 100\<rparr>) = ''Low'' \<and>
   get_status (tube0\<lparr>current_volume := Some 30, initial_volume := Some 100\<rparr>) = ''Available'' \<and>
   get_status (tube0\<lparr>current_volume := Some 30, initial_volume := Some 0\<rparr>) = ''Available''"
  using get_status_thresholds [of "tube0\<lparr>current_volume := Some 0\<rparr>"]
    get_status_thresholds [of "tube0\<lparr>current_volume := Some 5, initial_volume := Some 100\<rparr>"]
    get_status_thresholds [of "tube0\<lparr>current_volume := Some 20, initial_volume := Some 100\<rparr>"]
    get_status_thresholds [of "tube0\<lparr>current_volume := Some 30, initial_volume := Some 100\<rparr>"]
    get_status_thresholds [of "tube0\<lparr>current_volume := Some 30, initial_volume := Some 0\<rparr>"]
  by (simp add: tube0_def)

lemma sql_and_true: "sql_and (Some True) c = c" "sql_and c (Some True) = c"
  by (cases c; cases "the c"; simp add: sql_and_def)+

lemma status_clause_Empty:
  "selected (status_clause ''Empty'' t) \<longleftrightarrow> get_status t = ''Empty''"
  by (cases "current_volume t")
     (simp_all add: selected_def status_clause_def get_status_def sql_or_def sql_cmp_def
        sql_is_null_def)

lemma status_clause_Critical:
  "selected (status_clause ''Critical'' t) \<longleftrightarrow> get_status t = ''Critical''"
  by (cases "current_volume t")
     (auto simp add: selected_def status_clause_def get_status_def sql_and_def sql_cmp_def)

lemma status_clause_Low: "selected (status_clause ''Low'' t) \<longleftrightarrow> get_status t = ''Low''"
  by (cases "current_volume t"; cases "initial_volume t")
     (auto simp add: selected_def status_clause_def get_status_def sql_and_def sql_cmp_def
        sql_is_not_null_def sql_mul_def)

lemma status_clause_Available:
  "selected (status_clause ''Available'' t) \<longleftrightarrow> get_status t = ''Available''"
  by (cases "current_volume t"; cases "initial_volume t")
     (auto simp add: selected_def status_clause_def get_status_def sql_and_def sql_or_def
        sql_cmp_def sql_is_null_def sql_mul_def)

lemma tubes_where_status_only:
  "S \<noteq> [] \<Longrightarrow> tubes_where None [] S [] t = status_clause S t"
  by (simp add: tubes_where_def sql_and_true)

lemma status_clause_get_status:
  "S \<in> {''Empty'', ''Critical'', ''Low'', ''Available''} \<Longrightarrow>
     selected (status_clause S t) \<longleftrightarrow> get_status t = S"
proof -
  assume "S \<in> {''Empty'', ''Critical'', ''Low'', ''Available''}"
  then consider "S = ''Empty''" | "S = ''Critical''" | "S = ''Low''" | "S = ''Available''"
    by blast
  then show ?thesis
  proof cases
    case 1
    then show ?thesis using status_clause_Empty [of t] by simp
  next
    case 2
    then show ?thesis using status_clause_Critical [of t] by simp
  next
    case 3
    then show ?thesis using status_clause_Low [of t] by simp
  next
    case 4
    then show ?thesis using status_clause_Available [of t] by simp
  qed
qed

lemma selected_sql_and: "selected (sql_and a b) \<longleftrightarrow> selected a \<and> selected b"
  by (auto simp: selected_def sql_and_def)

lemma tubes_where_status:
  "S \<noteq> [] \<Longrightarrow> selected (tubes_where search box S ttype t) \<Longrightarrow> selected (status_clause S t)"
  by (simp add: tubes_where_def selected_sql_and)

lemma query_rows:
  "set (build_tubes_query search box S ttype limit table)
     \<subseteq> {row \<in> set table. selected (tubes_where search box S ttype (snd row))}"
  by (auto simp: build_tubes_query_def Let_def dest: in_set_takeD)

lemma query_rows_all:
  "length table \<le> limit \<Longrightarrow>
   set (build_tubes_query search box S ttype limit table)
     = {row \<in> set table. selected (tubes_where search box S ttype (snd row))}"
proof -
  assume a: "length table \<le> limit"
  have "length (sort_key (\<lambda>row. barcode (snd row))
          (filter (\<lambda>row. selected (tubes_where search box S ttype (snd row))) table)) \<le> limit"
    using a length_filter_le [of _ table] by (metis length_sort order_trans)
  then show ?thesis by (auto simp: build_tubes_query_def Let_def)
qed

text \<open>
  Claim C7. For each of the four status values the status condition of the tube query
  selects a tube exactly when \<open>get_status\<close> gives that value, also when the initial volume
  is unset or zero; the same holds for the whole WHERE condition when no other filter is
  given. So every row that the query returns for a status has that status, and without
  other filters and within the limit the query returns exactly the tubes of that status.
\<close>

theorem status_filter_matches_get_status:
  "S \<in> {''Empty'', ''Critical'', ''Low'', ''Available''} \<Longrightarrow>
     (selected (status_clause S t) \<longleftrightarrow> get_status t = S) \<and>
     (selected (tubes_where None [] S [] t) \<longleftrightarrow> get_status t = S) \<and>
     (\<forall>row \<in> set (build_tubes_query search box S ttype limit table). get_status (snd row) = S) \<and>
     (length table \<le> limit \<longrightarrow>
        set (build_tubes_query None [] S [] limit table)
          = {row \<in> set table. get_status (snd row) = S})"
proof -
  assume s: "S \<in> {''Empty'', ''Critical'', ''Low'', ''Available''}"
  then have ne: "S \<noteq> []" by auto
  have a: "selected (status_clause S u) \<longleftrightarrow> get_status u = S" for u
    using s by (rule status_clause_get_status)
  have b: "selected (tubes_where None [] S [] u) \<longleftrightarrow> get_status u = S" for u
    using a [of u] tubes_where_status_only [OF ne, of u] by simp
  have c: "\<forall>row \<in> set (build_tubes_query search box S ttype limit table). get_status (snd row) = S"
    using query_rows [of search box S ttype limit table] tubes_where_status [OF ne] a by blast
  have d: "length table \<le> limit \<longrightarrow>
        set (build_tubes_query None [] S [] limit table)
          = {row \<in> set table. get_status (snd row) = S}"
    using query_rows_all [of table limit None "[]" S "[]"] b by simp
  show ?thesis using a b c d by blast
qed

text \<open>Tubes holding 30 microlitres with initial volume 0 or unset are selected as
  Available and not as Low; a tube without volumes is selected as Empty; of the two tubes
  of the example store the query for Low returns tube 1.\<close>

theorem status_filter_matches_get_status_witness:
  "selected (status_clause ''Available''
      (tube0\<lparr>current_volume := Some 30, initial_volume := Some 0\<rparr>)) \<and>
   selected (status_clause ''Available'' (tube0\<lparr>current_volume := Some 30\<rparr>)) \<and>
   \<not> selected (status_clause ''Low'' (tube0\<lparr>current_volume := Some 30\<rparr>)) \<and>
   selected (status_clause ''Empty'' tube0) \<and>
   map fst (build_tubes_query None [] ''Low'' [] 10 (tubes db1)) = [1] \<and>
   map (get_status \<circ> snd) (tubes db1) = [''Low'', ''Empty'']"
proof -
  have av: "''Available'' \<in> {''Empty'', ''Critical'', ''Low'', ''Available''}"
    and lo: "''Low'' \<in> {''Empty'', ''Critical'', ''Low'', ''Available''}"
    and em: "''Empty'' \<in> {''Empty'', ''Critical'', ''Low'', ''Available''}"
    by simp_all
  have s1: "get_status (tube0\<lparr>current_volume := Some 30, initial_volume := Some 0\<rparr>)
              = ''Available''"
    and s2: "get_status (tube0\<lparr>current_volume := Some 30\<rparr>) = ''Available''"
    and s3: "get_status tube0 = ''Empty''"
    by (simp_all add: tube0_def get_status_def)
  have a: "selected (status_clause ''Available''
      (tube0\<lparr>current_volume := Some 30, initial_volume := Some 0\<rparr>))"
    using status_filter_matches_get_status [OF av,
        of "tube0\<lparr>current_volume := Some 30, initial_volume := Some 0\<rparr>" None "[]" "[]" 10
          "tubes db1"] s1
    by blast
  have b: "selected (status_clause ''Available'' (tube0\<lparr>current_volume := Some 30\<rparr>))"
    using status_filter_matches_get_status [OF av, of "tube0\<lparr>current_volume := Some 30\<rparr>"
        None "[]" "[]" 10 "tubes db1"] s2
    by blast
  have "get_status (tube0\<lparr>current_volume := Some 30\<rparr>) \<noteq> ''Low''" using s2 by simp
  then have c: "\<not> selected (status_clause ''Low'' (tube0\<lparr>current_volume := Some 30\<rparr>))"
    using status_filter_matches_get_status [OF lo, of "tube0\<lparr>current_volume := Some 30\<rparr>"
        None "[]" "[]" 10 "tubes db1"]
    by blast
  have d: "selected (status_clause ''Empty'' tube0)"
    using status_filter_matches_get_status [OF em, of tube0 None "[]" "[]" 10 "tubes db1"] s3
    by blast
  have q: "map fst (build_tubes_query None [] ''Low'' [] 10 (tubes db1)) = [1]"
    by (simp add: build_tubes_query_def tubes_where_def status_clause_def selected_def
        sql_and_def sql_cmp_def sql_is_not_null_def sql_mul_def db1_def tube0_def)
  have g: "map (get_status \<circ> snd) (tubes db1) = [''Low'', ''Empty'']"
    by (simp add: get_status_def db1_def tube0_def)
  show ?thesis using a b c d q g by blast
qed

section \<open>Rows by key\<close>

lemma map_of_set_row_same: "map_of rows i = Some t \<Longrightarrow> map_of (set_row i v rows) i = Some v"
  by (induction rows) (auto simp: set_row_def split: if_splits)

lemma map_of_set_row_other: "k \<noteq> i \<Longrightarrow> map_of (set_row i v rows) k = map_of rows k"
  by (induction rows) (auto simp: set_row_def)

lemma map_of_delete_row: "map_of (delete_row i rows) k = (if k = i then None else map_of rows k)"
  by (induction rows) (auto simp: delete_row_def)

section \<open>Usage recording\<close>

lemma fst_store_usage: "fst (store_usage fsub d data vt dt w) = Inr (new_id (usages d))"
  by (simp add: store_usage_def Let_def)

lemma create_usage_failed: "fst (create_usage fsub strptime today d data) = Inl e \<Longrightarrow>
   snd (create_usage fsub strptime today d data) = d"
  by (auto simp: create_usage_def fst_store_usage split: sum.splits option.splits)

lemma create_usage_stored:
  "fst (create_usage fsub strptime today d data) = Inr k \<Longrightarrow>
     \<exists>vt tb dt. checked_volume_taken (ju_volume_taken data) = Inr vt
       \<and> referenced_tube d (ju_tube_id data) = Inr tb
       \<and> insufficient (withdrawal tb vt) = None
       \<and> create_usage fsub strptime today d data
           = store_usage fsub d data vt dt (withdrawal tb vt)"
  by (auto simp: create_usage_def split: sum.splits option.splits)

lemma withdrawal_ref:
  "referenced_tube d ref = Inr tb \<Longrightarrow> withdrawal tb vt = Some (i, t, a, cv) \<Longrightarrow>
     ref = Some i \<and> i \<noteq> 0 \<and> map_of (tubes d) i = Some t \<and> current_volume t = Some cv \<and> vt = Some a"
  by (auto simp: referenced_tube_def withdrawal_def split: option.splits if_splits)

lemma store_usage_tubes:
  "tubes (snd (store_usage fsub d data vt dt w))
     = (case w of
          Some (i, t, a, cv) \<Rightarrow>
            set_row i (t\<lparr>current_volume := sql_real (reduced fsub cv a)\<rparr>) (tubes d)
        | None \<Rightarrow> tubes d)"
  by (simp add: store_usage_def Let_def)

text \<open>What a usage request does to the tube table: nothing, or the current volume of the
  referenced tube becomes the float difference for an amount within the volume, and NULL
  for an amount that is not a number.\<close>

lemma create_usage_tubes:
  "tubes (snd (create_usage fsub strptime today d data)) = tubes d \<or>
   (\<exists>i t cv. ju_tube_id data = Some i \<and> map_of (tubes d) i = Some t
      \<and> current_volume t = Some cv
      \<and> fst (create_usage fsub strptime today d data) = Inr (new_id (usages d))
      \<and> ((\<exists>v. 0 < v \<and> v \<le> cv \<and> ju_volume_taken data = Some (Number v)
             \<and> tubes (snd (create_usage fsub strptime today d data))
                 = set_row i (t\<lparr>current_volume := Some (fsub cv v)\<rparr>) (tubes d))
          \<or> (ju_volume_taken data = Some NaN
             \<and> tubes (snd (create_usage fsub strptime today d data))
                 = set_row i (t\<lparr>current_volume := None\<rparr>) (tubes d))))"
proof (cases "fst (create_usage fsub strptime today d data)")
  case (Inl e)
  then show ?thesis by (simp add: create_usage_failed)
next
  case (Inr k)
  then obtain vt tb dt where s: "checked_volume_taken (ju_volume_taken data) = Inr vt"
      "referenced_tube d (ju_tube_id data) = Inr tb"
      "insufficient (withdrawal tb vt) = None"
      "create_usage fsub strptime today d data = store_usage fsub d data vt dt (withdrawal tb vt)"
    using create_usage_stored by blast
  show ?thesis
  proof (cases "withdrawal tb vt")
    case None
    then show ?thesis using s(4) by (simp add: store_usage_tubes)
  next
    case (Some w)
    obtain i t a cv where w: "w = (i, t, a, cv)" by (cases w) auto
    have r: "ju_tube_id data = Some i" "map_of (tubes d) i = Some t" "current_volume t = Some cv"
      "vt = Some a"
      using withdrawal_ref [OF s(2), of vt i t a cv] Some w by auto
    have k: "fst (create_usage fsub strptime today d data) = Inr (new_id (usages d))"
      using s(4) by (simp add: store_usage_def Let_def)
    show ?thesis
    proof (cases a)
      case (Amount v)
      have "0 < v" "ju_volume_taken data = Some (Number v)" using s(1) r(4) Amount
        by (auto simp: checked_volume_taken_def split: option.splits raw_number.splits if_splits)
      moreover have "v \<le> cv" using s(3) Some w Amount
        by (simp add: insufficient_def split: if_splits)
      moreover have "tubes (snd (create_usage fsub strptime today d data))
                 = set_row i (t\<lparr>current_volume := Some (fsub cv v)\<rparr>) (tubes d)"
        using s(4) Some w Amount by (simp add: store_usage_tubes reduced_def sql_real_def)
      ultimately show ?thesis using r k by blast
    next
      case AmountNaN
      have "ju_volume_taken data = Some NaN" using s(1) r(4) AmountNaN
        by (auto simp: checked_volume_taken_def split: option.splits raw_number.splits if_splits)
      moreover have "tubes (snd (create_usage fsub strptime today d data))
                 = set_row i (t\<lparr>current_volume := None\<rparr>) (tubes d)"
        using s(4) Some w AmountNaN by (simp add: store_usage_tubes reduced_def sql_real_def)
      ultimately show ?thesis using r k by blast
    qed
  qed
qed

text \<open>
  For an amount that is a number and a tube whose current volume is set, the checks are as
  the data model asks: an amount of at most 0 is invalid, a positive amount above the
  current volume is insufficient, a failed request leaves the store as it was, and a
  successful one stores the float difference and one usage row with the amount.
\<close>

lemma create_usage_number:
  assumes "map_of (tubes d) i = Some t" and "i \<noteq> 0" and "current_volume t = Some cv"
    and "ju_tube_id data = Some i" and "ju_volume_taken data = Some (Number v)"
  shows "(v \<le> 0 \<longrightarrow> create_usage fsub strptime today d data = (Inl InvalidAmount, d)) \<and>
         (0 < v \<and> cv < v \<longrightarrow>
            create_usage fsub strptime today d data = (Inl (InsufficientVolume cv v), d)) \<and>
         (\<forall>e. fst (create_usage fsub strptime today d data) = Inl e \<longrightarrow>
            snd (create_usage fsub strptime today d data) = d) \<and>
         (\<forall>k. fst (create_usage fsub strptime today d data) = Inr k \<longrightarrow>
            0 < v \<and> v \<le> cv \<and>
            map_of (tubes (snd (create_usage fsub strptime today d data))) i
              = Some (t\<lparr>current_volume := Some (fsub cv v)\<rparr>) \<and>
            (\<exists>u. usages (snd (create_usage fsub strptime today d data)) = usages d @ [(k, u)]
                 \<and> tube_id u = Some i \<and> volume_taken u = Some v))"
proof (intro conjI allI impI)
  assume "v \<le> 0"
  then show "create_usage fsub strptime today d data = (Inl InvalidAmount, d)"
    using assms by (simp add: create_usage_def checked_volume_taken_def)
next
  assume "0 < v \<and> cv < v"
  then show "create_usage fsub strptime today d data = (Inl (InsufficientVolume cv v), d)"
    using assms
    by (simp add: create_usage_def checked_volume_taken_def referenced_tube_def withdrawal_def
        truthy_def insufficient_def)
next
  fix e assume "fst (create_usage fsub strptime today d data) = Inl e"
  then show "snd (create_usage fsub strptime today d data) = d" by (rule create_usage_failed)
next
  fix k assume k: "fst (create_usage fsub strptime today d data) = Inr k"
  then show pos: "0 < v" using assms
    by (auto simp: create_usage_def checked_volume_taken_def split: if_splits)
  have w: "withdrawal (Some (i, t)) (Some (Amount v)) = Some (i, t, Amount v, cv)"
    using assms pos by (simp add: withdrawal_def truthy_def)
  show le: "v \<le> cv" using k assms pos w
    by (auto simp: create_usage_def checked_volume_taken_def referenced_tube_def insufficient_def
        split: if_splits)
  obtain dt where st: "create_usage fsub strptime today d data
      = store_usage fsub d data (Some (Amount v)) dt (Some (i, t, Amount v, cv))"
    using k assms pos w le
    by (auto simp: create_usage_def checked_volume_taken_def referenced_tube_def insufficient_def
        split: sum.splits)
  show "map_of (tubes (snd (create_usage fsub strptime today d data))) i
              = Some (t\<lparr>current_volume := Some (fsub cv v)\<rparr>)"
    using st assms(1)
    by (simp add: store_usage_tubes map_of_set_row_same reduced_def sql_real_def)
  show "\<exists>u. usages (snd (create_usage fsub strptime today d data)) = usages d @ [(k, u)]
                 \<and> tube_id u = Some i \<and> volume_taken u = Some v"
    using st k assms(4)
    by (intro exI [of _ "usage_of_json data (Some (Amount v)) dt"])
       (simp add: store_usage_def Let_def usage_of_json_def sql_real_def)
qed

text \<open>
  Claim C1 at a failing input. The amount of the request is the text \<open>nan\<close>, which
  \<open>float\<close> reads as not-a-number; the tube holds 10 of 100 microlitres. The amount is
  neither at most 0 nor above the current volume, both comparisons being false, so the
  request succeeds: the usage row is stored, and the current volume of the tube, 10 less
  not-a-number, is stored as NULL. The volume is not reduced by the amount: it is lost.
\<close>

theorem create_usage_nan_amount:
  "fst (create_usage exact_sub no_date (Date 2026 11 4) db1 (nan_request 1)) = Inr 1 \<and>
   map (current_volume \<circ> snd) (tubes db1) = [Some 10, None] \<and>
   map (current_volume \<circ> snd)
       (tubes (snd (create_usage exact_sub no_date (Date 2026 11 4) db1 (nan_request 1))))
     = [None, None] \<and>
   map (initial_volume \<circ> snd)
       (tubes (snd (create_usage exact_sub no_date (Date 2026 11 4) db1 (nan_request 1))))
     = [Some 100, None] \<and>
   map (\<lambda>row. (tube_id (snd row), volume_taken (snd row)))
       (usages (snd (create_usage exact_sub no_date (Date 2026 11 4) db1 (nan_request 1))))
     = [(Some 1, None)]"
  by (simp add: create_usage_def checked_volume_taken_def referenced_tube_def withdrawal_def
      truthy_def insufficient_def checked_date_out_def store_usage_def usage_of_json_def
      reduced_def sql_real_def nan_request_def db1_def tube0_def new_id_def set_row_def)

text \<open>
  Claim C10. When the referenced tube has no current volume, a request with a positive
  amount (and no malformed date) succeeds whatever the amount: no volume check applies, the
  usage row carries the requested amount, and the tubes are as before, the volume still
  unset.
\<close>

theorem create_usage_unset_volume:
  assumes "map_of (tubes d) i = Some t" and "i \<noteq> 0" and "current_volume t = None"
    and "ju_tube_id data = Some i" and "ju_volume_taken data = Some (Number v)" and "0 < v"
    and "ju_date_out data = None \<or> ju_date_out data = Some [] \<or>
         (\<exists>s dt. ju_date_out data = Some s \<and> strptime s = Some dt)"
  shows "\<exists>u. create_usage fsub strptime today d data
              = (Inr (new_id (usages d)), d\<lparr>usages := usages d @ [(new_id (usages d), u)]\<rparr>)
            \<and> tube_id u = Some i \<and> volume_taken u = Some v"
proof -
  have "\<exists>dt. checked_date_out strptime today (ju_date_out data) = Inr dt"
    using assms(7) by (auto simp: checked_date_out_def)
  then obtain dt where dt: "checked_date_out strptime today (ju_date_out data) = Inr dt"
    by blast
  have "create_usage fsub strptime today d data
          = store_usage fsub d data (Some (Amount v)) dt None"
    using assms(1-6) dt
    by (simp add: create_usage_def checked_volume_taken_def referenced_tube_def withdrawal_def
        insufficient_def)
  then show ?thesis using assms(4)
    by (intro exI [of _ "usage_of_json data (Some (Amount v)) dt"])
       (simp add: store_usage_def Let_def usage_of_json_def sql_real_def)
qed

text \<open>Taking 1000 microlitres from tube 2, which has no volume, succeeds.\<close>

theorem create_usage_unset_volume_witness:
  "fst (create_usage exact_sub no_date (Date 2026 11 4) db1 (usage_request 2 1000)) = Inr 1 \<and>
   tubes (snd (create_usage exact_sub no_date (Date 2026 11 4) db1 (usage_request 2 1000)))
     = tubes db1 \<and>
   map (volume_taken \<circ> snd)
       (usages (snd (create_usage exact_sub no_date (Date 2026 11 4) db1 (usage_request 2 1000))))
     = [Some 1000]"
proof -
  have "\<exists>u. create_usage exact_sub no_date (Date 2026 11 4) db1 (usage_request 2 1000)
              = (Inr (new_id (usages db1)),
                 db1\<lparr>usages := usages db1 @ [(new_id (usages db1), u)]\<rparr>)
            \<and> tube_id u = Some 2 \<and> volume_taken u = Some 1000"
    by (rule create_usage_unset_volume [of db1 2 "snd (tubes db1 ! 1)"])
       (simp_all add: db1_def tube0_def usage_request_def)
  then show ?thesis by (auto simp: db1_def new_id_def)
qed

section \<open>Tube placement\<close>





section \<open>The tube loop of the import\<close>

lemma import_row_no_barcode:
  "row_barcode row = [] \<Longrightarrow>
     import_row pf im bx st row = st\<lparr>skipped_no_barcode := skipped_no_barcode st + 1\<rparr>"
  by (simp add: import_row_def row_barcode_def Let_def)

lemma import_row_dup_barcode:
  "row_barcode row \<noteq> [] \<Longrightarrow> row_barcode row \<in> seen_barcodes st \<Longrightarrow>
     import_row pf im bx st row = st\<lparr>skipped_dup_barcode := skipped_dup_barcode st + 1\<rparr>"
  by (simp add: import_row_def row_barcode_def Let_def)

lemma import_row_fresh:
  assumes "row_barcode row \<noteq> []" "row_barcode row \<notin> seen_barcodes st"
  shows "seen_barcodes (import_row pf im bx st row) = insert (row_barcode row) (seen_barcodes st)"
    and "skipped_dup_barcode (import_row pf im bx st row) = skipped_dup_barcode st"
    and "created (import_row pf im bx st row) + skipped_dup_position (import_row pf im bx st row)
           = created st + skipped_dup_position st + 1"
    and "session_tubes (import_row pf im bx st row) = session_tubes st \<or>
         (\<exists>t. session_tubes (import_row pf im bx st row) = session_tubes st @ [t]
             \<and> barcode t = row_barcode row
             \<and> current_volume t = parse_volume pf (col row 3)
             \<and> initial_volume t = parse_volume pf (col row 3))"
  using assms by (simp_all add: import_row_def row_barcode_def Let_def)


lemma import_row_seen_barcodes:
  "seen_barcodes (import_row pf im bx st row)
     = (if row_barcode row = [] then seen_barcodes st
        else insert (row_barcode row) (seen_barcodes st))"
proof (cases "row_barcode row = []")
  case True
  then show ?thesis by (simp add: import_row_no_barcode)
next
  case False
  then show ?thesis
    by (cases "row_barcode row \<in> seen_barcodes st")
       (simp_all add: import_row_dup_barcode import_row_fresh(1) insert_absorb)
qed

lemma import_fold_seen_barcodes:
  "seen_barcodes (foldl (import_row pf im bx) st rows) = seen_barcodes st \<union> set (barcodes_of rows)"
  by (induction rows arbitrary: st) (auto simp: import_row_seen_barcodes barcodes_of_def)

lemma card_fresh_barcode:
  "b \<notin> seen \<Longrightarrow> card (insert b (set bs) - seen) = Suc (card (set bs - insert b seen))"
proof -
  assume a: "b \<notin> seen"
  have "insert b (set bs) - seen = insert b (set bs - insert b seen)" using a by auto
  moreover have "b \<notin> set bs - insert b seen" by simp
  moreover have "finite (set bs - insert b seen)" by simp
  ultimately show ?thesis by simp
qed

lemma import_fold_created:
  "created (foldl (import_row pf im bx) st rows)
     + skipped_dup_position (foldl (import_row pf im bx) st rows)
   = created st + skipped_dup_position st + card (set (barcodes_of rows) - seen_barcodes st)"
proof (induction rows arbitrary: st)
  case Nil
  then show ?case by (simp add: barcodes_of_def)
next
  case (Cons row rows)
  show ?case
  proof (cases "row_barcode row = []")
    case True
    then show ?thesis using Cons [of "import_row pf im bx st row"]
      by (simp add: import_row_no_barcode barcodes_of_def)
  next
    case False
    show ?thesis
    proof (cases "row_barcode row \<in> seen_barcodes st")
      case True
      then have "insert (row_barcode row) (set (barcodes_of rows)) - seen_barcodes st
                   = set (barcodes_of rows) - seen_barcodes st" by auto
      then show ?thesis using Cons [of "import_row pf im bx st row"] True False
        by (simp add: import_row_dup_barcode barcodes_of_def)
    next
      case fresh: False
      have "barcodes_of (row # rows) = row_barcode row # barcodes_of rows"
        using False by (simp add: barcodes_of_def)
      then show ?thesis
        using Cons [of "import_row pf im bx st row"] import_row_fresh(1,3) [OF False fresh, of pf im bx]
          card_fresh_barcode [OF fresh, of "barcodes_of rows"]
        by simp
    qed
  qed
qed

lemma import_fold_dup_barcode:
  "skipped_dup_barcode (foldl (import_row pf im bx) st rows)
     + card (set (barcodes_of rows) - seen_barcodes st)
   = skipped_dup_barcode st + length (barcodes_of rows)"
proof (induction rows arbitrary: st)
  case Nil
  then show ?case by (simp add: barcodes_of_def)
next
  case (Cons row rows)
  show ?case
  proof (cases "row_barcode row = []")
    case True
    then show ?thesis using Cons [of "import_row pf im bx st row"]
      by (simp add: import_row_no_barcode barcodes_of_def)
  next
    case False
    show ?thesis
    proof (cases "row_barcode row \<in> seen_barcodes st")
      case True
      then have "insert (row_barcode row) (set (barcodes_of rows)) - seen_barcodes st
                   = set (barcodes_of rows) - seen_barcodes st" by auto
      then show ?thesis using Cons [of "import_row pf im bx st row"] True False
        by (simp add: import_row_dup_barcode barcodes_of_def)
    next
      case fresh: False
      have "barcodes_of (row # rows) = row_barcode row # barcodes_of rows"
        using False by (simp add: barcodes_of_def)
      then show ?thesis
        using Cons [of "import_row pf im bx st row"] import_row_fresh(1,2) [OF False fresh, of pf im bx]
          card_fresh_barcode [OF fresh, of "barcodes_of rows"]
        by simp
    qed
  qed
qed

lemma import_row_tracked:
  "barcodes_tracked st \<Longrightarrow> barcodes_tracked (import_row pf im bx st row)"
proof (cases "row_barcode row = []")
  case True
  assume "barcodes_tracked st"
  then show ?thesis using True by (simp add: import_row_no_barcode barcodes_tracked_def)
next
  case False
  assume tr: "barcodes_tracked st"
  show ?thesis
  proof (cases "row_barcode row \<in> seen_barcodes st")
    case True
    then show ?thesis using tr False by (simp add: import_row_dup_barcode barcodes_tracked_def)
  next
    case fresh: False
    have old: "row_barcode row \<notin> set (map barcode (session_tubes st))"
      using tr fresh by (auto simp: barcodes_tracked_def)
    show ?thesis
      using import_row_fresh(1,4) [OF False fresh, of pf im bx] tr old
      unfolding barcodes_tracked_def by (elim disjE exE conjE) auto
  qed
qed

lemma import_fold_tracked:
  "barcodes_tracked st \<Longrightarrow> barcodes_tracked (foldl (import_row pf im bx) st rows)"
  by (induction rows arbitrary: st) (simp_all add: import_row_tracked)

lemma import_row_length:
  "created st = length (session_tubes st) \<Longrightarrow>
     created (import_row pf im bx st row) = length (session_tubes (import_row pf im bx st row))"
  by (simp add: import_row_def Let_def)

lemma import_fold_length:
  "created st = length (session_tubes st) \<Longrightarrow>
     created (foldl (import_row pf im bx) st rows)
       = length (session_tubes (foldl (import_row pf im bx) st rows))"
  by (induction rows arbitrary: st) (simp_all add: import_row_length)


lemma import_row_counter:
  "import_row pf im bx (st\<lparr>skipped_dup_barcode := n\<rparr>) row
     = (import_row pf im bx st row)
         \<lparr>skipped_dup_barcode :=
            (if row_barcode row \<noteq> [] \<and> row_barcode row \<in> seen_barcodes st then n + 1 else n)\<rparr>"
  by (simp add: import_row_def row_barcode_def Let_def)

lemma import_row_counter_free:
  "\<exists>m. import_row pf im bx (st\<lparr>skipped_dup_barcode := n\<rparr>) row
         = (import_row pf im bx st row)\<lparr>skipped_dup_barcode := m\<rparr>"
  by (rule exI) (rule import_row_counter)

lemma import_fold_counter_free:
  "\<exists>m. foldl (import_row pf im bx) (st\<lparr>skipped_dup_barcode := n\<rparr>) rows
         = (foldl (import_row pf im bx) st rows)\<lparr>skipped_dup_barcode := m\<rparr>"
proof (induction rows arbitrary: st n)
  case Nil
  then show ?case by auto
next
  case (Cons row rows)
  obtain m where "import_row pf im bx (st\<lparr>skipped_dup_barcode := n\<rparr>) row
         = (import_row pf im bx st row)\<lparr>skipped_dup_barcode := m\<rparr>"
    using import_row_counter_free by blast
  then show ?case using Cons [of m "import_row pf im bx st row"] by simp
qed

lemma import_fold_keep_first:
  "\<exists>m. foldl (import_row pf im bx) st rows
         = (foldl (import_row pf im bx) st (keep_first (seen_barcodes st) rows))
             \<lparr>skipped_dup_barcode := m\<rparr>"
proof (induction rows arbitrary: st)
  case Nil
  have "st = st\<lparr>skipped_dup_barcode := skipped_dup_barcode st\<rparr>" by simp
  then show ?case by (metis foldl_Nil keep_first.simps(1))
next
  case (Cons row rows)
  show ?case
  proof (cases "row_barcode row = []")
    case True
    then have "seen_barcodes (import_row pf im bx st row) = seen_barcodes st"
      by (simp add: import_row_seen_barcodes)
    then show ?thesis using Cons [of "import_row pf im bx st row"] True by simp
  next
    case False
    show ?thesis
    proof (cases "row_barcode row \<in> seen_barcodes st")
      case True
      obtain m where m: "foldl (import_row pf im bx) (st\<lparr>skipped_dup_barcode := skipped_dup_barcode st + 1\<rparr>) rows
         = (foldl (import_row pf im bx) st rows)\<lparr>skipped_dup_barcode := m\<rparr>"
        using import_fold_counter_free by blast
      obtain m' where m': "foldl (import_row pf im bx) st rows
         = (foldl (import_row pf im bx) st (keep_first (seen_barcodes st) rows))
             \<lparr>skipped_dup_barcode := m'\<rparr>"
        using Cons [of st] by blast
      have "foldl (import_row pf im bx) st (row # rows)
              = (foldl (import_row pf im bx) st (keep_first (seen_barcodes st) rows))
             \<lparr>skipped_dup_barcode := m'\<rparr>\<lparr>skipped_dup_barcode := m\<rparr>"
        using True False m m' by (simp add: import_row_dup_barcode)
      then have "foldl (import_row pf im bx) st (row # rows)
              = (foldl (import_row pf im bx) st (keep_first (seen_barcodes st) (row # rows)))
             \<lparr>skipped_dup_barcode := m\<rparr>"
        using True False by simp
      then show ?thesis by (rule exI)
    next
      case fresh: False
      have "seen_barcodes (import_row pf im bx st row) = insert (row_barcode row) (seen_barcodes st)"
        using False by (simp add: import_row_seen_barcodes)
      then show ?thesis using Cons [of "import_row pf im bx st row"] False fresh by simp
    qed
  qed
qed



lemma add_tubes_rows: "map snd (add_tubes rows ts) = map snd rows @ ts"
proof -
  have "map snd (foldl (\<lambda>acc t. acc @ [(new_id acc, t)]) rows ts) = map snd rows @ ts"
    by (induction ts arbitrary: rows) simp_all
  then show ?thesis by (simp add: add_tubes_def)
qed

lemma main_tubes:
  "map snd (tubes (fst (main pf im l d file_rows)))
     = session_tubes (snd (main pf im l d file_rows))"
  by (simp add: main_def Let_def add_tubes_rows)


text \<open>
  Claim C8, as amended. A row whose non-empty barcode occurred in an earlier row changes
  nothing but the DuplicateBarcode counter: it creates no tube and records no position, so
  the run is that of the rows without such rows, up to that counter. The created tubes have
  pairwise different barcodes, each the non-empty barcode of a row: at most one tube for
  each distinct barcode, and exactly one unless the first row of the barcode was rejected
  as DuplicatePosition, so that the tubes created and the rows counted as DuplicatePosition
  together are as many as the distinct non-empty barcodes. The rows counted as
  DuplicateBarcode are the remaining rows with a non-empty barcode.
\<close>

theorem import_duplicate_barcode:
  "(row_barcode row \<noteq> [] \<and> row_barcode row \<in> set (map row_barcode pre) \<longrightarrow>
      import_tubes pf im bx l (pre @ [row])
        = (import_tubes pf im bx l pre)
            \<lparr>skipped_dup_barcode := skipped_dup_barcode (import_tubes pf im bx l pre) + 1\<rparr>) \<and>
   distinct (map barcode (session_tubes (import_tubes pf im bx l rows))) \<and>
   set (map barcode (session_tubes (import_tubes pf im bx l rows))) \<subseteq> set (barcodes_of rows) \<and>
   created (import_tubes pf im bx l rows) = length (session_tubes (import_tubes pf im bx l rows)) \<and>
   created (import_tubes pf im bx l rows) + skipped_dup_position (import_tubes pf im bx l rows)
     = card (set (barcodes_of rows)) \<and>
   skipped_dup_barcode (import_tubes pf im bx l rows) + card (set (barcodes_of rows))
     = length (barcodes_of rows) \<and>
   (\<exists>m. import_tubes pf im bx l rows
          = (import_tubes pf im bx l (keep_first {} rows))\<lparr>skipped_dup_barcode := m\<rparr>)"
proof -
  have start: "barcodes_tracked (import_start l)" "seen_barcodes (import_start l) = {}"
    "created (import_start l) = 0" "skipped_dup_position (import_start l) = 0"
    "skipped_dup_barcode (import_start l) = 0" "session_tubes (import_start l) = []"
    by (simp_all add: import_start_def link_sample_def link0_def no_individuals_def barcodes_tracked_def)
  have a: "row_barcode row \<noteq> [] \<and> row_barcode row \<in> set (map row_barcode pre) \<longrightarrow>
      import_tubes pf im bx l (pre @ [row])
        = (import_tubes pf im bx l pre)
            \<lparr>skipped_dup_barcode := skipped_dup_barcode (import_tubes pf im bx l pre) + 1\<rparr>"
  proof
    assume h: "row_barcode row \<noteq> [] \<and> row_barcode row \<in> set (map row_barcode pre)"
    then have "row_barcode row \<in> set (barcodes_of pre)" by (auto simp: barcodes_of_def)
    then have "row_barcode row \<in> seen_barcodes (import_tubes pf im bx l pre)"
      by (simp add: import_tubes_def import_fold_seen_barcodes)
    then show "import_tubes pf im bx l (pre @ [row])
        = (import_tubes pf im bx l pre)
            \<lparr>skipped_dup_barcode := skipped_dup_barcode (import_tubes pf im bx l pre) + 1\<rparr>"
      using h import_row_dup_barcode [of row "import_tubes pf im bx l pre" pf im bx]
      by (simp add: import_tubes_def)
  qed
  have tr: "barcodes_tracked (import_tubes pf im bx l rows)"
    unfolding import_tubes_def by (rule import_fold_tracked [OF start(1)])
  have b: "distinct (map barcode (session_tubes (import_tubes pf im bx l rows)))"
    using tr by (simp add: barcodes_tracked_def)
  have "seen_barcodes (import_tubes pf im bx l rows) = set (barcodes_of rows)"
    by (simp add: import_tubes_def import_fold_seen_barcodes start(2))
  then have c: "set (map barcode (session_tubes (import_tubes pf im bx l rows))) \<subseteq> set (barcodes_of rows)"
    using tr by (simp add: barcodes_tracked_def)
  have d: "created (import_tubes pf im bx l rows) = length (session_tubes (import_tubes pf im bx l rows))"
    unfolding import_tubes_def by (rule import_fold_length) (simp add: start)
  have e: "created (import_tubes pf im bx l rows) + skipped_dup_position (import_tubes pf im bx l rows)
     = card (set (barcodes_of rows))"
    using import_fold_created [of pf im bx "import_start l" rows]
    by (simp add: import_tubes_def start)
  have f: "skipped_dup_barcode (import_tubes pf im bx l rows) + card (set (barcodes_of rows))
     = length (barcodes_of rows)"
    using import_fold_dup_barcode [of pf im bx "import_start l" rows]
    by (simp add: import_tubes_def start)
  have g: "\<exists>m. import_tubes pf im bx l rows
          = (import_tubes pf im bx l (keep_first {} rows))\<lparr>skipped_dup_barcode := m\<rparr>"
    using import_fold_keep_first [of pf im bx "import_start l" rows]
    by (simp add: import_tubes_def start(2))
  show ?thesis using a b c d e f g by blast
qed

text \<open>X1 at A1, then X1 again at A2, then X3 at A2: the second row only raises the
  counter, and X3 gets the position A2.\<close>

theorem import_duplicate_barcode_witness:
  "import_tubes no_float no_individuals (map_of [(''B1'', 1)]) link0
      [file_row ''X1'' ''1'' ''A'', file_row ''X1'' ''2'' ''A'']
     = (import_tubes no_float no_individuals (map_of [(''B1'', 1)]) link0 [file_row ''X1'' ''1'' ''A''])
         \<lparr>skipped_dup_barcode := 1\<rparr> \<and>
   map barcode (session_tubes (import_tubes no_float no_individuals (map_of [(''B1'', 1)]) link0
      [file_row ''X1'' ''1'' ''A'', file_row ''X1'' ''2'' ''A'', file_row ''X3'' ''2'' ''A'']))
     = [''X1'', ''X3''] \<and>
   skipped_dup_barcode (import_tubes no_float no_individuals (map_of [(''B1'', 1)]) link0
      [file_row ''X1'' ''1'' ''A'', file_row ''X1'' ''2'' ''A'', file_row ''X3'' ''2'' ''A'']) = 1"
proof -
  have h: "row_barcode (file_row ''X1'' ''2'' ''A'') \<noteq> [] \<and>
           row_barcode (file_row ''X1'' ''2'' ''A'')
             \<in> set (map row_barcode [file_row ''X1'' ''1'' ''A''])"
    by (simp add: row_barcode_def file_row_def col_def strip_def lstrip_def rstrip_def
        is_space_def)
  have s: "skipped_dup_barcode
             (import_tubes no_float no_individuals (map_of [(''B1'', 1)]) link0 [file_row ''X1'' ''1'' ''A''])
           = 0"
    by (simp add: import_tubes_def import_row_def import_start_def link_sample_def link0_def no_individuals_def file_row_def col_def
        strip_def lstrip_def rstrip_def is_space_def Let_def)
  have a: "import_tubes no_float no_individuals (map_of [(''B1'', 1)]) link0
      ([file_row ''X1'' ''1'' ''A''] @ [file_row ''X1'' ''2'' ''A''])
     = (import_tubes no_float no_individuals (map_of [(''B1'', 1)]) link0 [file_row ''X1'' ''1'' ''A''])
         \<lparr>skipped_dup_barcode := 1\<rparr>"
    using import_duplicate_barcode [of "file_row ''X1'' ''2'' ''A''" "[file_row ''X1'' ''1'' ''A'']"
        no_float no_individuals "map_of [(''B1'', 1)]" link0] h s
    by simp
  have b: "map barcode (session_tubes (import_tubes no_float no_individuals (map_of [(''B1'', 1)]) link0
      [file_row ''X1'' ''1'' ''A'', file_row ''X1'' ''2'' ''A'', file_row ''X3'' ''2'' ''A'']))
     = [''X1'', ''X3'']"
    by (simp add: import_tubes_def import_row_def import_start_def link_sample_def link0_def no_individuals_def file_row_def col_def
        strip_def lstrip_def rstrip_def is_space_def Let_def)
  have c: "skipped_dup_barcode (import_tubes no_float no_individuals (map_of [(''B1'', 1)]) link0
      [file_row ''X1'' ''1'' ''A'', file_row ''X1'' ''2'' ''A'', file_row ''X3'' ''2'' ''A'']) = 1"
    by (simp add: import_tubes_def import_row_def import_start_def link_sample_def link0_def no_individuals_def file_row_def col_def
        strip_def lstrip_def rstrip_def is_space_def Let_def)
  show ?thesis using a b c by simp
qed

text \<open>Claim C8 as stated fails on two rows with the barcodes X1 and X2, both at A1 of the
  same box: there are two distinct barcodes and one tube, X2 being rejected for its
  position.\<close>

theorem import_duplicate_barcode_counterexample:
  "barcodes_of [file_row ''X1'' ''1'' ''A'', file_row ''X2'' ''1'' ''A''] = [''X1'', ''X2''] \<and>
   map barcode (session_tubes (snd (main no_float no_individuals link0 empty_db
      [file_row ''X1'' ''1'' ''A'', file_row ''X2'' ''1'' ''A''])))
     = [''X1''] \<and>
   skipped_dup_barcode (snd (main no_float no_individuals link0 empty_db
      [file_row ''X1'' ''1'' ''A'', file_row ''X2'' ''1'' ''A''])) = 0 \<and>
   skipped_dup_position (snd (main no_float no_individuals link0 empty_db
      [file_row ''X1'' ''1'' ''A'', file_row ''X2'' ''1'' ''A''])) = 1"
  by (simp add: barcodes_of_def row_barcode_def main_def empty_db_def import_tubes_def
      import_row_def import_start_def link_sample_def link0_def no_individuals_def file_row_def col_def strip_def lstrip_def rstrip_def
      is_space_def box_info_row_def create_boxes_def new_id_def Let_def)

section \<open>Positions after the import\<close>

text \<open>
  Claim C3 at a failing input. The seen positions are keyed by the text of the cells, the
  stored position by what \<open>parse_position_v\<close> and \<open>parse_position_h\<close> read from them. Two
  rows of box B1 with column 1 and the letters A and a have different keys and the same
  position: the run creates both tubes in box 1 at row 1, column 1, and counts no
  DuplicatePosition.
\<close>

theorem import_same_position_twice:
  "map (barcode \<circ> snd) (tubes (fst (main no_float no_individuals link0 empty_db
      [file_row ''X1'' ''1'' ''A'', file_row ''X2'' ''1'' ''a''])))
     = [''X1'', ''X2''] \<and>
   map (box_id \<circ> snd) (tubes (fst (main no_float no_individuals link0 empty_db
      [file_row ''X1'' ''1'' ''A'', file_row ''X2'' ''1'' ''a''])))
     = [Some 1, Some 1] \<and>
   map (position_row \<circ> snd) (tubes (fst (main no_float no_individuals link0 empty_db
      [file_row ''X1'' ''1'' ''A'', file_row ''X2'' ''1'' ''a''])))
     = [Some 1, Some 1] \<and>
   map (position_col \<circ> snd) (tubes (fst (main no_float no_individuals link0 empty_db
      [file_row ''X1'' ''1'' ''A'', file_row ''X2'' ''1'' ''a''])))
     = [Some 1, Some 1] \<and>
   skipped_dup_position (snd (main no_float no_individuals link0 empty_db
      [file_row ''X1'' ''1'' ''A'', file_row ''X2'' ''1'' ''a''])) = 0"
  by (simp add: main_def empty_db_def import_tubes_def import_row_def import_start_def link_sample_def link0_def no_individuals_def
      file_row_def col_def strip_def lstrip_def rstrip_def is_space_def box_info_row_def
      create_boxes_def new_id_def add_tubes_def parse_position_v_def parse_position_h_def
      upper_def upper_char_def py_int_def int_body_def is_digit_def digit_val_def Let_def)

section \<open>Writers of the current volume\<close>

lemma keeps_volumes_same: "tubes d' = tubes d \<Longrightarrow> keeps_volumes d d'"
  by (auto simp: keeps_volumes_def list_all_iff split: option.splits)

lemma keeps_volumes_create_tube: "keeps_volumes d (snd (create_tube d data))"
  by (auto simp: keeps_volumes_def list_all_iff create_tube_def Let_def map_of_append
      split: option.splits)

lemma keeps_volumes_delete_tube: "keeps_volumes d (snd (delete_tube d i))"
  by (auto simp: keeps_volumes_def list_all_iff delete_tube_def map_of_delete_row
      split: option.splits if_splits)

lemma update_tube_tubes:
  "tubes (snd (update_tube d i data)) = tubes d \<or>
   (\<exists>old b. map_of (tubes d) i = Some old
      \<and> tubes (snd (update_tube d i data)) = set_row i (assign_fields old b data) (tubes d))"
  by (auto simp: update_tube_def Let_def split: option.splits)

lemma keeps_volumes_update_tube:
  assumes a: "j_current_volume data = None"
  shows "keeps_volumes d (snd (update_tube d i data))"
proof -
  have c: "current_volume (assign_fields t b data) = current_volume t" for t b
    using a by (simp add: assign_fields_def jset_def)
  have s: "map_of (set_row i (assign_fields old b data) (tubes d)) k' = Some t''
          \<Longrightarrow> map_of (tubes d) i = Some old \<Longrightarrow> map_of (tubes d) k' = Some t
          \<Longrightarrow> current_volume t'' = current_volume t" for k' t t'' old b
    using c [of old b] map_of_set_row_same [of "tubes d" i old "assign_fields old b data"]
      map_of_set_row_other [of k' i "assign_fields old b data" "tubes d"]
    by (cases "k' = i") auto
  from update_tube_tubes [of d i data] show ?thesis
  proof (elim disjE exE conjE)
    assume "tubes (snd (update_tube d i data)) = tubes d"
    then show ?thesis by (rule keeps_volumes_same)
  next
    fix old b
    assume "map_of (tubes d) i = Some old"
      and "tubes (snd (update_tube d i data)) = set_row i (assign_fields old b data) (tubes d)"
    then show ?thesis
      unfolding keeps_volumes_def using s [of old b]
      by (auto simp: list_all_iff split: option.splits)
  qed
qed

lemma update_tube_other_tubes:
  "k \<noteq> i \<Longrightarrow> map_of (tubes (snd (update_tube d i data))) k = map_of (tubes d) k"
  using update_tube_tubes [of d i data] by (auto simp: map_of_set_row_other)

text \<open>The box, individual and sample routes write their own tables.\<close>

lemma other_tables:
  "tubes (snd (create_box d bdata)) = tubes d"
  "tubes (snd (update_box d i bdata)) = tubes d"
  "tubes (snd (delete_box d i)) = tubes d"
  "tubes (snd (create_individual d idata)) = tubes d"
  "tubes (snd (update_individual d i idata)) = tubes d"
  "tubes (snd (delete_individual d i)) = tubes d"
  "tubes (snd (create_sample strptime d sdata)) = tubes d"
  "tubes (snd (update_sample strptime d i sdata)) = tubes d"
  "tubes (snd (delete_sample d i)) = tubes d"
  "tubes (snd (add_sample_to_sujet d i sdata)) = tubes d"
  by (simp_all add: create_box_def update_box_def delete_box_def create_individual_def
      update_individual_def delete_individual_def create_sample_def update_sample_def
      delete_sample_def add_sample_to_sujet_def Let_def split: option.splits)

lemma keeps_volumes_store_after:
  "\<not> writes_current_volume r \<Longrightarrow> keeps_volumes d (store_after fsub strptime today d r)"
  by (cases r)
     (simp_all add: store_after_def writes_current_volume_def keeps_volumes_same other_tables
        keeps_volumes_create_tube keeps_volumes_delete_tube keeps_volumes_update_tube
        create_sujet_def update_sujet_def delete_sujet_def)

lemma create_usage_other_tubes:
  "ju_tube_id udata \<noteq> Some k \<Longrightarrow>
     map_of (tubes (snd (create_usage fsub strptime today d udata))) k = map_of (tubes d) k"
  using create_usage_tubes [of fsub strptime today d udata]
  by (auto simp: map_of_set_row_other)

lemma import_row_tubes:
  "session_tubes (import_row pf im bx st row) = session_tubes st \<or>
   (\<exists>t. session_tubes (import_row pf im bx st row) = session_tubes st @ [t]
       \<and> barcode t = row_barcode row
       \<and> initial_volume t = parse_volume pf (col row 3)
       \<and> current_volume t = parse_volume pf (col row 3))"
  by (simp add: import_row_def row_barcode_def Let_def)

lemma import_fold_made_from:
  "list_all (made_from pf R) (session_tubes st) \<Longrightarrow> set rows \<subseteq> set R \<Longrightarrow>
     list_all (made_from pf R) (session_tubes (foldl (import_row pf im bx) st rows))"
proof (induction rows arbitrary: st)
  case Nil
  then show ?case by simp
next
  case (Cons row rows)
  have r: "row \<in> set R" using Cons.prems by simp
  have m: "made_from pf R t"
    if "barcode t = row_barcode row" "initial_volume t = parse_volume pf (col row 3)"
      "current_volume t = parse_volume pf (col row 3)" for t
    using that r unfolding made_from_def by blast
  have "list_all (made_from pf R) (session_tubes (import_row pf im bx st row))"
    using import_row_tubes [of pf im bx st row] Cons.prems(1) m by auto
  then show ?case using Cons.IH [of "import_row pf im bx st row"] Cons.prems by simp
qed

lemma main_made_from:
  "list_all (made_from pf file_rows) (map snd (tubes (fst (main pf im l d file_rows))))"
proof -
  have "list_all (made_from pf file_rows)
          (session_tubes (foldl (import_row pf im bx) (import_start l)
             (filter (\<lambda>row. length row \<ge> 12) file_rows)))" for bx
    by (rule import_fold_made_from) (auto simp: import_start_def)
  then have "list_all (made_from pf file_rows) (session_tubes (snd (main pf im l d file_rows)))"
    by (simp add: main_def Let_def import_tubes_def)
  then show ?thesis by (simp add: main_tubes)
qed

text \<open>
  Claim C6, as amended. Of all the requests, only a usage and a tube update whose body has
  the key \<open>current_volume\<close> can change the current volume of an existing tube: every other
  request (a tube update without that key, tube creation and deletion, the box, individual,
  sample and subject routes, every GET route with the tube query and the export, the pages)
  leaves the current volume of every tube that stays in the store unchanged. A usage leaves
  every tube other than the referenced one as it was, and a tube update every tube other
  than the updated one. The import replaces the tube table: after it the table holds the
  tubes made from rows of the file, each with the parsed volume cell of its row.
\<close>

theorem current_volume_writers:
  "(\<not> writes_current_volume r \<longrightarrow> keeps_volumes d (store_after fsub strptime today d r)) \<and>
   (\<forall>k. ju_tube_id udata \<noteq> Some k \<longrightarrow>
      map_of (tubes (snd (create_usage fsub strptime today d udata))) k = map_of (tubes d) k) \<and>
   (\<forall>k. k \<noteq> i \<longrightarrow> map_of (tubes (snd (update_tube d i data))) k = map_of (tubes d) k) \<and>
   list_all (made_from pf file_rows) (map snd (tubes (fst (main pf im l d file_rows))))"
  using keeps_volumes_store_after [of r d fsub strptime today]
    create_usage_other_tubes [of udata _ fsub strptime today d]
    update_tube_other_tubes [of _ i d data]
    main_made_from [of pf file_rows im l d]
  by simp

text \<open>
  On the example store: deleting tube 2, setting only the initial volume of tube 1, the
  export and adding a sample keep the current volumes; a usage on tube 1 leaves tube 2 as
  it was and takes tube 1 from 10 to 6; an update of tube 1 leaves tube 2 as it was; the
  import of one row with the volume cell 50 leaves one tube, holding 50.
\<close>

theorem current_volume_writers_witness:
  "keeps_volumes db1 (store_after exact_sub no_date (Date 2026 11 4) db1 (DeleteTube 2)) \<and>
   keeps_volumes db1 (store_after exact_sub no_date (Date 2026 11 4) db1
      (UpdateTube 1 (no_change\<lparr>j_initial_volume := Some (Some 5)\<rparr>))) \<and>
   keeps_volumes db1 (store_after exact_sub no_date (Date 2026 11 4) db1 ExportTubes) \<and>
   map_of (tubes (snd (create_usage exact_sub no_date (Date 2026 11 4) db1 (usage_request 1 4)))) 2
     = map_of (tubes db1) 2 \<and>
   map (current_volume \<circ> snd)
       (tubes (snd (create_usage exact_sub no_date (Date 2026 11 4) db1 (usage_request 1 4))))
     = [Some 6, None] \<and>
   map_of (tubes (snd (update_tube db1 1 (no_change\<lparr>j_current_volume := Some (Some 50)\<rparr>)))) 2
     = map_of (tubes db1) 2 \<and>
   map (current_volume \<circ> snd)
       (tubes (fst (main int_float no_individuals link0 db1 [volume_row ''X1'' ''50''])))
     = [Some 50]"
proof -
  let ?u = "usage_request 1 4"
  let ?upd = "no_change\<lparr>j_current_volume := Some (Some 50)\<rparr>"
  let ?file = "[volume_row ''X1'' ''50'']"
  note w = current_volume_writers [where d = db1 and fsub = exact_sub and strptime = no_date
      and today = "Date 2026 11 4" and udata = ?u and i = 1 and data = ?upd and pf = int_float
      and file_rows = ?file and im = no_individuals and l = link0]
  have n: "\<not> writes_current_volume (DeleteTube 2)"
    "\<not> writes_current_volume (UpdateTube 1 (no_change\<lparr>j_initial_volume := Some (Some 5)\<rparr>))"
    "\<not> writes_current_volume ExportTubes"
    by (simp_all add: writes_current_volume_def no_change_def)
  have a: "keeps_volumes db1 (store_after exact_sub no_date (Date 2026 11 4) db1 (DeleteTube 2))"
    using w [where r = "DeleteTube 2"] n(1) by blast
  have b: "keeps_volumes db1 (store_after exact_sub no_date (Date 2026 11 4) db1
      (UpdateTube 1 (no_change\<lparr>j_initial_volume := Some (Some 5)\<rparr>)))"
    using w [where r = "UpdateTube 1 (no_change\<lparr>j_initial_volume := Some (Some 5)\<rparr>)"] n(2)
    by blast
  have c: "keeps_volumes db1 (store_after exact_sub no_date (Date 2026 11 4) db1 ExportTubes)"
    using w [where r = ExportTubes] n(3) by blast
  have "ju_tube_id ?u \<noteq> Some 2" by (simp add: usage_request_def)
  then have e: "map_of (tubes (snd (create_usage exact_sub no_date (Date 2026 11 4) db1 ?u))) 2
     = map_of (tubes db1) 2"
    using w [where r = Page] by blast
  have f: "map_of (tubes (snd (update_tube db1 1 ?upd))) 2 = map_of (tubes db1) 2"
    using w [where r = Page] by simp
  have g: "map (current_volume \<circ> snd)
       (tubes (snd (create_usage exact_sub no_date (Date 2026 11 4) db1 ?u))) = [Some 6, None]"
    by (simp add: create_usage_def checked_volume_taken_def referenced_tube_def withdrawal_def
        truthy_def insufficient_def checked_date_out_def store_usage_def reduced_def sql_real_def
        exact_sub_def usage_request_def db1_def tube0_def new_id_def set_row_def)
  have h: "map (current_volume \<circ> snd) (tubes (fst (main int_float no_individuals link0 db1 ?file)))
     = [Some 50]"
    by (simp add: main_def import_tubes_def import_row_def import_start_def link_sample_def
        link0_def no_individuals_def volume_row_def col_def strip_def lstrip_def rstrip_def
        is_space_def box_info_row_def create_boxes_def new_id_def add_tubes_def parse_volume_def
        int_float_def py_int_def int_body_def is_digit_def digit_val_def Let_def)
  show ?thesis using a b c e f g h by blast
qed

text \<open>Claim C6 as stated fails: a tube update with the key \<open>current_volume\<close> succeeds and
  changes the stored current volume of tube 1 from 10 to 50 without any usage.\<close>

theorem current_volume_writers_counterexample:
  "fst (update_tube db1 1 (no_change\<lparr>j_current_volume := Some (Some 50)\<rparr>)) = Inr 1 \<and>
   map (current_volume \<circ> snd) (tubes db1) = [Some 10, None] \<and>
   map (current_volume \<circ> snd)
       (tubes (snd (update_tube db1 1 (no_change\<lparr>j_current_volume := Some (Some 50)\<rparr>))))
     = [Some 50, None] \<and>
   usages (snd (update_tube db1 1 (no_change\<lparr>j_current_volume := Some (Some 50)\<rparr>))) = []"
  by (simp add: no_change_def update_tube_def assign_fields_def tube_reply_def
      get_position_display_def tube_ints_bindable_def bindable_def db1_def tube0_def jget_def
      jset_def delete_row_def set_row_def char_of_def bit_iff_odd)

section \<open>The volume bound over the operations\<close>
















end
